theory Spec2Isabelle
  imports Complex_Main "HOL-Library.Word"
begin

section \<open>Tensors\<close>

text \<open>
  A tensor is its shape and its elements in row-major order, as a contiguous
  \<^verbatim>\<open>torch.Tensor\<close> stores them. Floating-point elements are modelled as
  \<^typ>\<open>real\<close> with exact arithmetic, \<^verbatim>\<open>uint8\<close> elements as \<^typ>\<open>8 word\<close>.
\<close>

record 'a tensor =
  shape :: "nat list"
  data :: "'a list"

definition wf :: "'a tensor \<Rightarrow> bool" where
  "wf t \<longleftrightarrow> length (data t) = prod_list (shape t)"

definition valid_index :: "nat list \<Rightarrow> nat list \<Rightarrow> bool" where
  "valid_index sh idx \<longleftrightarrow> list_all2 (<) idx sh"

fun ravel :: "nat list \<Rightarrow> nat list \<Rightarrow> nat" where
  "ravel (n # sh) (i # idx) = i * prod_list sh + ravel sh idx"
| "ravel _ _ = 0"

fun unravel :: "nat list \<Rightarrow> nat \<Rightarrow> nat list" where
  "unravel [] k = []"
| "unravel (n # sh) k = (k div prod_list sh) # unravel sh (k mod prod_list sh)"

definition elem :: "'a tensor \<Rightarrow> nat list \<Rightarrow> 'a" where
  "elem t idx = data t ! ravel (shape t) idx"

definition tabulate :: "nat list \<Rightarrow> (nat list \<Rightarrow> 'a) \<Rightarrow> 'a tensor" where
  "tabulate sh f = \<lparr>shape = sh, data = map (\<lambda>k. f (unravel sh k)) [0..<prod_list sh]\<rparr>"

text \<open>\<^verbatim>\<open>image.dim()\<close>, \<^verbatim>\<open>len(image.shape)\<close>.\<close>

definition dim :: "'a tensor \<Rightarrow> nat" where
  "dim t = length (shape t)"

text \<open>\<^verbatim>\<open>image.size(-3)\<close>, \<^verbatim>\<open>image.shape[-3]\<close>; only read where \<open>3 \<le> dim t\<close>.\<close>

definition channels :: "'a tensor \<Rightarrow> nat" where
  "channels t = shape t ! (dim t - 3)"

text \<open>Elementwise application of a function, and of a Python scalar operation.\<close>

definition tmap :: "('a \<Rightarrow> 'b) \<Rightarrow> 'a tensor \<Rightarrow> 'b tensor" where
  "tmap f t = \<lparr>shape = shape t, data = map f (data t)\<rparr>"

text \<open>
  Broadcasting of two shapes, aligned at the last axis; an axis of size 1 is
  stretched. (torch raises where two sizes differ and neither is 1; the
  converters never combine such shapes.)
\<close>

definition broadcast_shape :: "nat list \<Rightarrow> nat list \<Rightarrow> nat list" where
  "broadcast_shape s1 s2 =
     (let n = max (length s1) (length s2);
          p1 = replicate (n - length s1) 1 @ s1;
          p2 = replicate (n - length s2) 1 @ s2
      in map2 (\<lambda>a b. if a = 1 then b else a) p1 p2)"

definition broadcast_index :: "nat list \<Rightarrow> nat list \<Rightarrow> nat list" where
  "broadcast_index s idx =
     map2 (\<lambda>d i. if d = 1 then 0 else i) s (drop (length idx - length s) idx)"

definition tbinop :: "('a \<Rightarrow> 'b \<Rightarrow> 'c) \<Rightarrow> 'a tensor \<Rightarrow> 'b tensor \<Rightarrow> 'c tensor" where
  "tbinop f a b =
     tabulate (broadcast_shape (shape a) (shape b))
       (\<lambda>idx. f (elem a (broadcast_index (shape a) idx)) (elem b (broadcast_index (shape b) idx)))"

text \<open>\<^verbatim>\<open>torch.where(cond, a, b)\<close>, the three tensors broadcast together.\<close>

definition twhere :: "bool tensor \<Rightarrow> 'a tensor \<Rightarrow> 'a tensor \<Rightarrow> 'a tensor" where
  "twhere c a b =
     tabulate (broadcast_shape (shape c) (broadcast_shape (shape a) (shape b)))
       (\<lambda>idx. if elem c (broadcast_index (shape c) idx)
              then elem a (broadcast_index (shape a) idx)
              else elem b (broadcast_index (shape b) idx))"

text \<open>\<^verbatim>\<open>t[..., c, :, :]\<close>: the channel axis is removed.\<close>

definition select_channel :: "nat \<Rightarrow> 'a tensor \<Rightarrow> 'a tensor" where
  "select_channel c t =
     (let n = dim t
      in tabulate (take (n - 3) (shape t) @ drop (n - 2) (shape t))
           (\<lambda>idx. elem t (take (n - 3) idx @ [c] @ drop (n - 3) idx)))"

text \<open>\<^verbatim>\<open>t[..., c:c+1, :, :]\<close>: the channel axis is kept; a slice is cut to the axis.\<close>

definition slice_channel :: "nat \<Rightarrow> 'a tensor \<Rightarrow> 'a tensor" where
  "slice_channel c t =
     (let n = dim t; C = channels t
      in tabulate ((shape t)[n - 3 := min (c + 1) C - min c C])
           (\<lambda>idx. elem t (idx[n - 3 := c + idx ! (n - 3)])))"

text \<open>
  \<^verbatim>\<open>torch.stack(ts, dim=-3)\<close> of tensors of one shape: a new axis third from
  last. (torch raises on an empty list; the converters stack three tensors.)
\<close>

definition stack :: "'a tensor list \<Rightarrow> 'a tensor" where
  "stack ts =
     (case ts of
        [] \<Rightarrow> \<lparr>shape = [0], data = []\<rparr>
      | t # _ \<Rightarrow>
          (let m = dim t
           in tabulate (take (m - 2) (shape t) @ [length ts] @ drop (m - 2) (shape t))
                (\<lambda>idx. elem (ts ! (idx ! (m - 2))) (take (m - 2) idx @ drop (m - 1) idx))))"

text \<open>
  \<^verbatim>\<open>concatenate(ts, -3)\<close>: the tensors are laid one after the other along the
  channel axis. \<open>locate\<close> finds the tensor and the channel in it for a
  channel of the result. (torch raises on an empty list; \<^verbatim>\<open>grayscale_to_rgb\<close>
  passes three tensors.)
\<close>

fun locate :: "nat list \<Rightarrow> nat \<Rightarrow> nat \<times> nat" where
  "locate [] j = (0, j)"
| "locate (c # cs) j =
     (if j < c then (0, j) else (case locate cs (j - c) of (k, l) \<Rightarrow> (Suc k, l)))"

definition concatenate :: "'a tensor list \<Rightarrow> 'a tensor" where
  "concatenate ts =
     (case ts of
        [] \<Rightarrow> \<lparr>shape = [0], data = []\<rparr>
      | t # _ \<Rightarrow>
          (let n = dim t; cs = map channels ts
           in tabulate ((shape t)[n - 3 := sum_list cs])
                (\<lambda>idx. case locate cs (idx ! (n - 3)) of
                          (k, j) \<Rightarrow> elem (ts ! k) (idx[n - 3 := j]))))"

text \<open>\<^verbatim>\<open>t.flip(-3)\<close>: the channel axis reversed.\<close>

definition flip_channels :: "'a tensor \<Rightarrow> 'a tensor" where
  "flip_channels t =
     (let n = dim t; C = channels t
      in tabulate (shape t) (\<lambda>idx. elem t (idx[n - 3 := C - 1 - idx ! (n - 3)])))"

text \<open>
  \<^verbatim>\<open>t.unbind()\<close>: the slices along the first axis. (torch raises on a tensor
  without axes; the weights are a vector.)
\<close>

definition unbind :: "'a tensor \<Rightarrow> 'a tensor list" where
  "unbind t =
     (case shape t of
        [] \<Rightarrow> []
      | n # sh \<Rightarrow> map (\<lambda>i. tabulate sh (\<lambda>idx. elem t (i # idx))) [0..<n])"

text \<open>
  \<^verbatim>\<open>torch.tensor([v0, v1, ...])\<close>, a vector, and \<^verbatim>\<open>t[..., :, None, None]\<close>,
  which appends two axes of size 1.
\<close>

definition tensor1 :: "'a list \<Rightarrow> 'a tensor" where
  "tensor1 xs = \<lparr>shape = [length xs], data = xs\<rparr>"

definition unsqueeze2 :: "'a tensor \<Rightarrow> 'a tensor" where
  "unsqueeze2 t = \<lparr>shape = shape t @ [1, 1], data = data t\<rparr>"

section \<open>Element types\<close>

text \<open>
  A \<^verbatim>\<open>torch.Tensor\<close> carries its dtype. The code tells three kinds apart:
  \<^verbatim>\<open>torch.uint8\<close> (its "8 bit images"), the tuple \<^verbatim>\<open>(torch.float16, torch.float32,
  torch.float64)\<close> (its "floating point images"), and every other dtype. Tensors of
  the third kind are only copied or rejected, never computed with; their elements
  are kept as the numbers they denote.
\<close>

datatype float_dtype = Float16 | Float32 | Float64

datatype other_dtype = Int8 | Int16 | Int32 | Int64 | Bool | BFloat16

datatype dtype = UInt8 | Floating float_dtype | Other other_dtype

datatype Tensor =
    ByteTensor "8 word tensor"
  | FloatTensor float_dtype "real tensor"
  | OtherTensor other_dtype "real tensor"

fun dtype_of :: "Tensor \<Rightarrow> dtype" where
  "dtype_of (ByteTensor t) = UInt8"
| "dtype_of (FloatTensor k t) = Floating k"
| "dtype_of (OtherTensor k t) = Other k"

fun tshape :: "Tensor \<Rightarrow> nat list" where
  "tshape (ByteTensor t) = shape t"
| "tshape (FloatTensor k t) = shape t"
| "tshape (OtherTensor k t) = shape t"

definition tdim :: "Tensor \<Rightarrow> nat" where
  "tdim t = length (tshape t)"

definition tchannels :: "Tensor \<Rightarrow> nat" where
  "tchannels t = tshape t ! (tdim t - 3)"

section \<open>Errors\<close>

datatype error = ValueError | TypeError

section \<open>Grayscale conversions (Colors/gray)\<close>

text \<open>
  \<^verbatim>\<open>KORNIA_CHECK_IS_TENSOR\<close> and the \<^verbatim>\<open>isinstance\<close> tests cannot fail here:
  every argument is a tensor by its type.
\<close>

definition grayscale_to_rgb :: "'a tensor \<Rightarrow> error + 'a tensor" where
  "grayscale_to_rgb img =
     (if dim img < 3 \<or> channels img \<noteq> 1 then Inl ValueError
      else Inr (concatenate [img, img, img]))"

text \<open>
  The last five lines of \<^verbatim>\<open>rgb_to_grayscale\<close>: the channels are cut out, the
  weights unbound and unpacked (Python raises ValueError unless there are exactly
  three), and the sum \<^verbatim>\<open>w_r * r + w_g * g + w_b * b\<close> is taken in the element
  type of the image.
\<close>

definition weighted_sum :: "'a::comm_semiring_1 tensor \<Rightarrow> 'a tensor \<Rightarrow> error + 'a tensor" where
  "weighted_sum img rgb_weights =
     (let r = slice_channel 0 img;
          g = slice_channel 1 img;
          b = slice_channel 2 img
      in case unbind rgb_weights of
           [w_r, w_g, w_b] \<Rightarrow>
             Inr (tbinop (+) (tbinop (+) (tbinop (*) w_r r) (tbinop (*) w_g g)) (tbinop (*) w_b b))
         | _ \<Rightarrow> Inl ValueError)"

text \<open>
  \<^verbatim>\<open>rgb_to_grayscale(image)\<close> with \<^verbatim>\<open>rgb_weights\<close> left at its default
  \<^verbatim>\<open>None\<close>, as \<^verbatim>\<open>bgr_to_grayscale\<close> calls it. The default weights are made
  with the dtype of the image, so for \<^verbatim>\<open>uint8\<close> all arithmetic is on bytes.
  The branch for supplied weights, which casts them with \<^verbatim>\<open>Tensor.to\<close>, lies
  outside this development.
\<close>

definition rgb_to_grayscale :: "Tensor \<Rightarrow> error + Tensor" where
  "rgb_to_grayscale img =
     (if tdim img < 3 \<or> tchannels img \<noteq> 3 then Inl ValueError
      else case img of
             ByteTensor t \<Rightarrow>
               map_sum id ByteTensor (weighted_sum t (tensor1 [76, 150, 29]))
           | FloatTensor k t \<Rightarrow>
               map_sum id (FloatTensor k) (weighted_sum t (tensor1 [0.299, 0.587, 0.114]))
           | OtherTensor k t \<Rightarrow> Inl TypeError)"

text \<open>
  Modelled from the spec: \<^verbatim>\<open>bgr_to_rgb\<close> of \<^verbatim>\<open>kornia.color.rgb\<close> is imported,
  its code is not part of the two source files. The spec has it reorder the
  channels B,G,R to R,G,B by reversing the channel axis.
\<close>

fun bgr_to_rgb :: "Tensor \<Rightarrow> Tensor" where
  "bgr_to_rgb (ByteTensor t) = ByteTensor (flip_channels t)"
| "bgr_to_rgb (FloatTensor k t) = FloatTensor k (flip_channels t)"
| "bgr_to_rgb (OtherTensor k t) = OtherTensor k (flip_channels t)"

definition bgr_to_grayscale :: "Tensor \<Rightarrow> error + Tensor" where
  "bgr_to_grayscale img =
     (if tdim img < 3 \<or> tchannels img \<noteq> 3 then Inl ValueError
      else let image_rgb = bgr_to_rgb img in rgb_to_grayscale image_rgb)"

section \<open>Lab conversions (Colors/lab)\<close>

text \<open>
  Modelled from the spec: the gamma codec (\<^verbatim>\<open>rgb_to_linear_rgb\<close>,
  \<^verbatim>\<open>linear_rgb_to_rgb\<close> of \<^verbatim>\<open>.rgb\<close>) is imported, its code is not part of
  the two source files. The spec gives both directions elementwise, with no
  shape validation.
\<close>

definition to_linear :: "real \<Rightarrow> real" where
  "to_linear v = (if v \<le> 0.04045 then v / 12.92 else ((v + 0.055) / 1.055) powr 2.4)"

definition to_encoded :: "real \<Rightarrow> real" where
  "to_encoded v = (if v \<le> 0.0031308 then 12.92 * v else 1.055 * v powr (1 / 2.4) - 0.055)"

definition rgb_to_linear_rgb :: "real tensor \<Rightarrow> real tensor" where
  "rgb_to_linear_rgb img = tmap to_linear img"

definition linear_rgb_to_rgb :: "real tensor \<Rightarrow> real tensor" where
  "linear_rgb_to_rgb img = tmap to_encoded img"

text \<open>
  Modelled from the spec: the matrix transform (\<^verbatim>\<open>rgb_to_xyz\<close>, \<^verbatim>\<open>xyz_to_rgb\<close>
  of \<^verbatim>\<open>.xyz\<close>) is imported, its code is not part of the two source files. The
  spec has it multiply every pixel by a fixed 3x3 matrix and raise unless there
  are 3 channels. The entries of the two matrices are given nowhere, so the matrix
  is a parameter: \<open>m i j\<close> is row \<open>i\<close>, column \<open>j\<close>.
\<close>

type_synonym color_matrix = "nat \<Rightarrow> nat \<Rightarrow> real"

definition matrix_transform :: "color_matrix \<Rightarrow> real tensor \<Rightarrow> error + real tensor" where
  "matrix_transform m img =
     (if dim img < 3 \<or> channels img \<noteq> 3 then Inl ValueError
      else
        let n = dim img
        in Inr (tabulate (shape img)
                 (\<lambda>idx. let i = idx ! (n - 3)
                        in m i 0 * elem img (idx[n - 3 := 0])
                         + m i 1 * elem img (idx[n - 3 := 1])
                         + m i 2 * elem img (idx[n - 3 := 2]))))"

definition rgb_to_xyz :: "color_matrix \<Rightarrow> real tensor \<Rightarrow> error + real tensor" where
  "rgb_to_xyz m img = matrix_transform m img"

definition xyz_to_rgb :: "color_matrix \<Rightarrow> real tensor \<Rightarrow> error + real tensor" where
  "xyz_to_rgb m img = matrix_transform m img"

text \<open>
  \<^verbatim>\<open>rgb_to_lab\<close>; \<open>m\<close> is the forward matrix of \<^verbatim>\<open>rgb_to_xyz\<close>. The base of
  \<^verbatim>\<open>torch.pow(_, 1 / 3.0)\<close> is clamped to at least the threshold, so it is positive.
\<close>

definition rgb_to_lab :: "color_matrix \<Rightarrow> real tensor \<Rightarrow> error + real tensor" where
  "rgb_to_lab m img =
     (if dim img < 3 \<or> channels img \<noteq> 3 then Inl ValueError
      else
        let lin_rgb = rgb_to_linear_rgb img
        in case rgb_to_xyz m lin_rgb of
             Inl e \<Rightarrow> Inl e
           | Inr xyz_im \<Rightarrow>
               (let xyz_ref_white = unsqueeze2 (tensor1 [0.95047, 1.0, 1.08883]);
                    xyz_normalized = tbinop (/) xyz_im xyz_ref_white;
                    threshold = 0.008856;
                    power = tmap (\<lambda>v. v powr (1 / 3.0)) (tmap (max threshold) xyz_normalized);
                    scale = tmap (\<lambda>v. 7.787 * v + 4.0 / 29.0) xyz_normalized;
                    xyz_int = twhere (tmap (\<lambda>v. v > threshold) xyz_normalized) power scale;
                    x = select_channel 0 xyz_int;
                    y = select_channel 1 xyz_int;
                    z = select_channel 2 xyz_int;
                    L = tmap (\<lambda>v. 116.0 * v - 16.0) y;
                    a = tmap (\<lambda>v. 500.0 * v) (tbinop (-) x y);
                    b = tmap (\<lambda>v. 200.0 * v) (tbinop (-) y z);
                    out = stack [L, a, b]
                in Inr out))"

text \<open>
  \<^verbatim>\<open>lab_to_rgb\<close>; \<open>m\<close> is the inverse matrix of \<^verbatim>\<open>xyz_to_rgb\<close>.
  \<^verbatim>\<open>torch.pow(_, 3.0)\<close> is the cube, also of a negative number.
\<close>

definition lab_to_rgb :: "color_matrix \<Rightarrow> real tensor \<Rightarrow> bool \<Rightarrow> error + real tensor" where
  "lab_to_rgb m img clip =
     (if dim img < 3 \<or> channels img \<noteq> 3 then Inl ValueError
      else
        let L = select_channel 0 img;
            a = select_channel 1 img;
            b = select_channel 2 img;
            fy = tmap (\<lambda>v. (v + 16.0) / 116.0) L;
            fx = tbinop (+) (tmap (\<lambda>v. v / 500.0) a) fy;
            fz = tbinop (-) fy (tmap (\<lambda>v. v / 200.0) b);
            fz = tmap (max 0.0) fz;
            fxyz = stack [fx, fy, fz];
            power = tmap (\<lambda>v. v ^ 3) fxyz;
            scale = tmap (\<lambda>v. (v - 4.0 / 29.0) / 7.787) fxyz;
            xyz = twhere (tmap (\<lambda>v. v > 0.2068966) fxyz) power scale;
            xyz_ref_white = unsqueeze2 (tensor1 [0.95047, 1.0, 1.08883]);
            xyz_im = tbinop (*) xyz xyz_ref_white
        in case xyz_to_rgb m xyz_im of
             Inl e \<Rightarrow> Inl e
           | Inr rgbs_im \<Rightarrow>
               (let rgb_im = linear_rgb_to_rgb rgbs_im;
                    rgb_im = (if clip then tmap (\<lambda>v. min 1.0 (max 0.0 v)) rgb_im else rgb_im)
                in Inr rgb_im))"

section \<open>The Lab formulas per pixel\<close>

text \<open>
  The conversions as the specification words them, for one pixel: the three
  channel values of the input at a position give the three of the output.
  They are what the tensor code above is compared with.
\<close>

definition pixel :: "'a tensor \<Rightarrow> nat list \<Rightarrow> nat \<Rightarrow> nat \<Rightarrow> 'a \<times> 'a \<times> 'a" where
  "pixel t bi h w = (elem t (bi @ [0, h, w]), elem t (bi @ [1, h, w]), elem t (bi @ [2, h, w]))"

definition lab_f :: "real \<Rightarrow> real" where
  "lab_f t = (if t > 0.008856 then root 3 t else 7.787 * t + 4 / 29)"

definition lab_f_inv :: "real \<Rightarrow> real" where
  "lab_f_inv f = (if f > 0.2068966 then f ^ 3 else (f - 4 / 29) / 7.787)"

definition apply_matrix :: "color_matrix \<Rightarrow> real \<times> real \<times> real \<Rightarrow> real \<times> real \<times> real" where
  "apply_matrix m p =
     (case p of (u, v, w) \<Rightarrow>
        (m 0 0 * u + m 0 1 * v + m 0 2 * w,
         m 1 0 * u + m 1 1 * v + m 1 2 * w,
         m 2 0 * u + m 2 1 * v + m 2 2 * w))"

definition rgb_to_lab_pixel :: "color_matrix \<Rightarrow> real \<times> real \<times> real \<Rightarrow> real \<times> real \<times> real" where
  "rgb_to_lab_pixel m p =
     (case p of (r, g, b) \<Rightarrow>
        (case apply_matrix m (to_linear r, to_linear g, to_linear b) of (X, Y, Z) \<Rightarrow>
           (let fx = lab_f (X / 0.95047);
                fy = lab_f (Y / 1.0);
                fz = lab_f (Z / 1.08883)
            in (116 * fy - 16, 500 * (fx - fy), 200 * (fy - fz)))))"

definition clamp01 :: "real \<Rightarrow> real" where
  "clamp01 v = min 1 (max 0 v)"

definition lab_to_rgb_pixel ::
    "color_matrix \<Rightarrow> bool \<Rightarrow> real \<times> real \<times> real \<Rightarrow> real \<times> real \<times> real" where
  "lab_to_rgb_pixel m clip p =
     (case p of (L, a, b) \<Rightarrow>
        (let fy = (L + 16) / 116;
             fx = a / 500 + fy;
             fz = max 0 (fy - b / 200)
         in case apply_matrix m
                   (lab_f_inv fx * 0.95047, lab_f_inv fy * 1.0, lab_f_inv fz * 1.08883) of
              (r, g, b') \<Rightarrow>
                (if clip
                 then (clamp01 (to_encoded r), clamp01 (to_encoded g), clamp01 (to_encoded b'))
                 else (to_encoded r, to_encoded g, to_encoded b'))))"

section \<open>The round trip through Lab\<close>








text \<open>
  An instance of the two matrices: the sRGB matrices for the D65 white point, the
  forward one to six digits, the inverse one to thirteen. They are not taken from
  the source files; they show that the conditions above are met by matrices that
  are inverse to each other only up to rounding.
\<close>

definition srgb_to_xyz :: color_matrix where
  "srgb_to_xyz i j =
     [[0.412453, 0.357580, 0.180423],
      [0.212671, 0.715160, 0.072169],
      [0.019334, 0.119193, 0.950227]] ! i ! j"

definition xyz_to_srgb :: color_matrix where
  "xyz_to_srgb i j =
     [[3.2404813432005, - 1.5371515162713, - 0.4985363261688],
      [- 0.9692549499965, 1.8759900014899, 0.0415559265582],
      [0.0556466391351, - 0.2040413383665, 1.0573110696453]] ! i ! j"

section \<open>The claim about default weights, in its own words\<close>

text \<open>
  The claim speaks of "8-bit integer tensors" and of "floating-point tensors".
  Among the dtypes of torch these are \<^verbatim>\<open>uint8\<close> and \<^verbatim>\<open>int8\<close>, and \<^verbatim>\<open>float16\<close>,
  \<^verbatim>\<open>bfloat16\<close>, \<^verbatim>\<open>float32\<close> and \<^verbatim>\<open>float64\<close> (those for which
  \<^verbatim>\<open>torch.is_floating_point\<close> holds).
\<close>

definition eight_bit_integer :: "dtype \<Rightarrow> bool" where
  "eight_bit_integer d \<longleftrightarrow> d = UInt8 \<or> d = Other Int8"

definition floating_point :: "dtype \<Rightarrow> bool" where
  "floating_point d \<longleftrightarrow> (case d of Floating k \<Rightarrow> True | Other k \<Rightarrow> k = BFloat16 | UInt8 \<Rightarrow> False)"

section \<open>Index arithmetic\<close>

lemma ravel_less:
  "list_all2 (<) idx sh \<Longrightarrow> ravel sh idx < prod_list sh"
proof (induction idx sh rule: list_all2_induct)
  case Nil
  then show ?case by simp
next
  case (Cons i idx n sh)
  have "i * prod_list sh + ravel sh idx < i * prod_list sh + prod_list sh"
    using Cons.IH by simp
  also have "\<dots> = Suc i * prod_list sh" by simp
  also have "\<dots> \<le> n * prod_list sh"
    using Cons.hyps(1) by (intro mult_le_mono1) simp
  finally show ?case by simp
qed

lemma unravel_ravel:
  "list_all2 (<) idx sh \<Longrightarrow> unravel sh (ravel sh idx) = idx"
proof (induction idx sh rule: list_all2_induct)
  case Nil
  then show ?case by simp
next
  case (Cons i idx n sh)
  have lt: "ravel sh idx < prod_list sh"
    using Cons.hyps(2) by (rule ravel_less)
  then show ?case using Cons.IH by simp
qed

lemma unravel_valid:
  "k < prod_list sh \<Longrightarrow> list_all2 (<) (unravel sh k) sh"
proof (induction sh arbitrary: k)
  case Nil
  then show ?case by simp
next
  case (Cons n sh)
  have pos: "0 < prod_list sh"
    using Cons.prems by (cases "prod_list sh = 0") simp_all
  have "k div prod_list sh < n"
    using Cons.prems pos by (simp add: less_mult_imp_div_less)
  moreover have "list_all2 (<) (unravel sh (k mod prod_list sh)) sh"
    using pos by (intro Cons.IH) simp
  ultimately show ?case by simp
qed

lemma ravel_unravel:
  "k < prod_list sh \<Longrightarrow> ravel sh (unravel sh k) = k"
proof (induction sh arbitrary: k)
  case Nil
  then show ?case by simp
next
  case (Cons n sh)
  have pos: "0 < prod_list sh"
    using Cons.prems by (cases "prod_list sh = 0") simp_all
  have "ravel sh (unravel sh (k mod prod_list sh)) = k mod prod_list sh"
    using pos by (intro Cons.IH) simp
  then show ?case by simp
qed

lemma shape_tabulate [simp]: "shape (tabulate sh f) = sh"
  by (simp add: tabulate_def)

lemma wf_tabulate [simp]: "wf (tabulate sh f)"
  by (simp add: wf_def tabulate_def)

lemma elem_tabulate:
  "valid_index sh idx \<Longrightarrow> elem (tabulate sh f) idx = f idx"
  by (simp add: elem_def tabulate_def valid_index_def ravel_less unravel_ravel)

lemma tensor_eqI:
  assumes "wf a" "wf b" "shape a = shape b"
    and "\<And>idx. valid_index (shape a) idx \<Longrightarrow> elem a idx = elem b idx"
  shows "a = b"
proof -
  have len: "length (data a) = length (data b)"
    using assms(1-3) by (simp add: wf_def)
  have "data a ! k = data b ! k" if "k < length (data a)" for k
  proof -
    have k: "k < prod_list (shape a)" using that assms(1) by (simp add: wf_def)
    have "elem a (unravel (shape a) k) = elem b (unravel (shape a) k)"
      using unravel_valid [OF k] by (intro assms(4)) (simp add: valid_index_def)
    then show ?thesis
      using ravel_unravel [OF k] assms(3) by (simp add: elem_def)
  qed
  then have "data a = data b" using len by (intro nth_equalityI) simp_all
  then show ?thesis using assms(3) by simp
qed

lemma valid_index_length: "valid_index sh idx \<Longrightarrow> length idx = length sh"
  by (simp add: valid_index_def list_all2_lengthD)

lemma valid_index_Nil [simp]: "valid_index [] idx \<longleftrightarrow> idx = []"
  by (simp add: valid_index_def)

lemma valid_index_Cons [simp]:
  "valid_index (n # sh) (i # idx) \<longleftrightarrow> i < n \<and> valid_index sh idx"
  by (simp add: valid_index_def)

lemma valid_index_append:
  "valid_index bs bi \<Longrightarrow> valid_index sh idx \<Longrightarrow> valid_index (bs @ sh) (bi @ idx)"
  by (simp add: valid_index_def list_all2_appendI)

lemma valid_index_split:
  assumes "valid_index (bs @ sh) idx"
  obtains bi r where "idx = bi @ r" "valid_index bs bi" "valid_index sh r"
  using assms unfolding valid_index_def list_all2_append2 by blast

lemma valid_index_chw:
  assumes "valid_index (bs @ [C, H, W]) idx"
  obtains bi c h w where "idx = bi @ [c, h, w]" "valid_index bs bi" "c < C" "h < H" "w < W"
proof -
  from assms obtain bi r where r: "idx = bi @ r" "valid_index bs bi" "valid_index [C, H, W] r"
    by (rule valid_index_split)
  from r(3) obtain c h w where "r = [c, h, w]" "c < C" "h < H" "w < W"
    by (auto simp: valid_index_def list_all2_Cons2)
  with r that show thesis by blast
qed

lemma shape_tmap [simp]: "shape (tmap f t) = shape t"
  by (simp add: tmap_def)

lemma wf_tmap [simp]: "wf (tmap f t) \<longleftrightarrow> wf t"
  by (simp add: tmap_def wf_def)

lemma elem_tmap:
  "wf t \<Longrightarrow> valid_index (shape t) idx \<Longrightarrow> elem (tmap f t) idx = f (elem t idx)"
  by (simp add: tmap_def elem_def wf_def valid_index_def ravel_less)

lemma shape_select_channel:
  "shape t = bs @ [C, H, W] \<Longrightarrow> shape (select_channel c t) = bs @ [H, W]"
  by (simp add: select_channel_def dim_def)

lemma elem_select_channel:
  assumes "shape t = bs @ [C, H, W]" "valid_index bs bi" "h < H" "w < W"
  shows "elem (select_channel c t) (bi @ [h, w]) = elem t (bi @ [c, h, w])"
proof -
  have len: "length bi = length bs" using assms(2) by (rule valid_index_length)
  have "valid_index (bs @ [H, W]) (bi @ [h, w])"
    using assms by (intro valid_index_append) simp_all
  then show ?thesis
    using assms(1) len by (simp add: select_channel_def dim_def elem_tabulate)
qed

lemma shape_slice_channel:
  "shape t = bs @ [C, H, W] \<Longrightarrow> c < C \<Longrightarrow> shape (slice_channel c t) = bs @ [1, H, W]"
  by (simp add: slice_channel_def dim_def channels_def nth_append list_update_append)

lemma elem_slice_channel:
  assumes "shape t = bs @ [C, H, W]" "c < C" "valid_index bs bi" "h < H" "w < W"
  shows "elem (slice_channel c t) (bi @ [0, h, w]) = elem t (bi @ [c, h, w])"
proof -
  have len: "length bi = length bs" using assms(3) by (rule valid_index_length)
  have "valid_index (bs @ [1, H, W]) (bi @ [0, h, w])"
    using assms by (intro valid_index_append) simp_all
  then show ?thesis
    using assms(1,2) len
    by (simp add: slice_channel_def dim_def channels_def nth_append list_update_append elem_tabulate)
qed

lemma shape_flip_channels [simp]: "shape (flip_channels t) = shape t"
  by (simp add: flip_channels_def Let_def)

lemma elem_flip_channels:
  assumes "shape t = bs @ [C, H, W]" "c < C" "valid_index bs bi" "h < H" "w < W"
  shows "elem (flip_channels t) (bi @ [c, h, w]) = elem t (bi @ [C - 1 - c, h, w])"
proof -
  have len: "length bi = length bs" using assms(3) by (rule valid_index_length)
  have "valid_index (bs @ [C, H, W]) (bi @ [c, h, w])"
    using assms by (intro valid_index_append) simp_all
  then show ?thesis
    using assms(1,2) len
    by (simp add: flip_channels_def dim_def channels_def nth_append list_update_append elem_tabulate)
qed

lemma shape_stack3:
  "shape a = bs @ [H, W] \<Longrightarrow> shape (stack [a, b, c]) = bs @ [3, H, W]"
  by (simp add: stack_def dim_def)

lemma elem_stack3:
  assumes "shape a = bs @ [H, W]" "k < 3" "valid_index bs bi" "h < H" "w < W"
  shows "elem (stack [a, b, c]) (bi @ [k, h, w]) = elem ([a, b, c] ! k) (bi @ [h, w])"
proof -
  have len: "length bi = length bs" using assms(3) by (rule valid_index_length)
  have "valid_index (bs @ [3, H, W]) (bi @ [k, h, w])"
    using assms by (intro valid_index_append) simp_all
  then show ?thesis
    using assms(1) len
    by (simp add: stack_def dim_def nth_append elem_tabulate numeral_3_eq_3)
qed

lemma shape_concatenate3:
  "shape t = bs @ [1, H, W] \<Longrightarrow> shape (concatenate [t, t, t]) = bs @ [3, H, W]"
  by (simp add: concatenate_def dim_def channels_def nth_append list_update_append)

lemma elem_concatenate3:
  assumes "shape t = bs @ [1, H, W]" "k < 3" "valid_index bs bi" "h < H" "w < W"
  shows "elem (concatenate [t, t, t]) (bi @ [k, h, w]) = elem t (bi @ [0, h, w])"
proof -
  have len: "length bi = length bs" using assms(3) by (rule valid_index_length)
  have v: "valid_index (bs @ [3, H, W]) (bi @ [k, h, w])"
    using assms by (intro valid_index_append) simp_all
  from assms(2) consider "k = 0" | "k = 1" | "k = 2" by linarith
  then show ?thesis
    using assms(1) len v
    by cases (simp_all add: concatenate_def dim_def channels_def nth_append list_update_append
        elem_tabulate numeral_3_eq_3 numeral_2_eq_2)
qed

section \<open>Broadcasting\<close>

lemma map2_same: "map2 (\<lambda>a b. if a = Suc 0 then b else a) s s = s"
  by (induction s) simp_all

lemma map2_ones_right:
  "map2 (\<lambda>a b. if a = Suc 0 then b else a) s (replicate (length s) (Suc 0)) = s"
  by (induction s) simp_all

lemma map2_ones_left:
  "map2 (\<lambda>a b. if a = Suc 0 then b else a) (replicate (length s) (Suc 0)) s = s"
  by (induction s) simp_all

lemma broadcast_shape_same [simp]: "broadcast_shape s s = s"
  by (simp add: broadcast_shape_def map2_same)

lemma broadcast_shape_scalar [simp]: "broadcast_shape [] s = s"
  by (simp add: broadcast_shape_def map2_ones_left)

lemma broadcast_shape_white:
  "broadcast_shape (bs @ [3, H, W]) [3, 1, 1] = bs @ [3, H, W]"
  by (simp add: broadcast_shape_def map2_ones_right)

lemma broadcast_index_same:
  "valid_index s idx \<Longrightarrow> broadcast_index s idx = idx"
  unfolding valid_index_def
proof (induction idx s rule: list_all2_induct)
  case Nil
  then show ?case by (simp add: broadcast_index_def)
next
  case (Cons i idx n s)
  then show ?case by (auto simp: broadcast_index_def dest: list_all2_lengthD)
qed

lemma broadcast_index_scalar [simp]: "broadcast_index [] idx = []"
  by (simp add: broadcast_index_def)

lemma broadcast_index_white:
  "broadcast_index [3, 1, 1] (bi @ [c, h, w]) = [c, 0, 0]"
  by (simp add: broadcast_index_def)

lemma shape_tbinop_same: "shape a = shape b \<Longrightarrow> shape (tbinop f a b) = shape a"
  by (simp add: tbinop_def)

lemma elem_tbinop_same:
  "shape a = shape b \<Longrightarrow> valid_index (shape a) idx \<Longrightarrow>
   elem (tbinop f a b) idx = f (elem a idx) (elem b idx)"
  by (simp add: tbinop_def elem_tabulate broadcast_index_same)

lemma shape_tbinop_scalar: "shape a = [] \<Longrightarrow> shape (tbinop f a b) = shape b"
  by (simp add: tbinop_def)

lemma elem_tbinop_scalar:
  "shape a = [] \<Longrightarrow> valid_index (shape b) idx \<Longrightarrow>
   elem (tbinop f a b) idx = f (elem a []) (elem b idx)"
  by (simp add: tbinop_def elem_tabulate broadcast_index_same)

lemma shape_tbinop_white:
  "shape a = bs @ [3, H, W] \<Longrightarrow> shape b = [3, 1, 1] \<Longrightarrow> shape (tbinop f a b) = bs @ [3, H, W]"
  by (simp add: tbinop_def broadcast_shape_white del: One_nat_def)

lemma elem_tbinop_white:
  assumes "shape a = bs @ [3, H, W]" "shape b = [3, 1, 1]"
    and "valid_index bs bi" "c < 3" "h < H" "w < W"
  shows "elem (tbinop f a b) (bi @ [c, h, w]) = f (elem a (bi @ [c, h, w])) (elem b [c, 0, 0])"
proof -
  have v: "valid_index (bs @ [3, H, W]) (bi @ [c, h, w])"
    using assms by (intro valid_index_append) simp_all
  show ?thesis
    using assms(1,2) v
    by (simp add: tbinop_def broadcast_shape_white elem_tabulate broadcast_index_same
        broadcast_index_white del: One_nat_def)
qed

lemma shape_twhere_same:
  "shape c = shape a \<Longrightarrow> shape b = shape a \<Longrightarrow> shape (twhere c a b) = shape a"
  by (simp add: twhere_def)

lemma elem_twhere_same:
  "shape c = shape a \<Longrightarrow> shape b = shape a \<Longrightarrow> valid_index (shape a) idx \<Longrightarrow>
   elem (twhere c a b) idx = (if elem c idx then elem a idx else elem b idx)"
  by (simp add: twhere_def elem_tabulate broadcast_index_same)

lemma wf_tbinop [simp]: "wf (tbinop f a b)"
  by (simp add: tbinop_def)

lemma wf_twhere [simp]: "wf (twhere c a b)"
  by (simp add: twhere_def)

lemma wf_select_channel [simp]: "wf (select_channel c t)"
  by (simp add: select_channel_def Let_def)

lemma wf_slice_channel [simp]: "wf (slice_channel c t)"
  by (simp add: slice_channel_def Let_def)

lemma wf_flip_channels [simp]: "wf (flip_channels t)"
  by (simp add: flip_channels_def Let_def)

lemma wf_stack3 [simp]: "wf (stack [a, b, c])"
  by (simp add: stack_def Let_def)

lemma wf_concatenate3 [simp]: "wf (concatenate [a, b, c])"
  by (simp add: concatenate_def Let_def)

lemma unbind_tensor1_3:
  "unbind (tensor1 [p, q, r]) =
     [tabulate [] (\<lambda>idx. p), tabulate [] (\<lambda>idx. q), tabulate [] (\<lambda>idx. r)]"
  by (simp add: unbind_def tensor1_def elem_def upt_rec numeral_3_eq_3)

lemma elem_scalar [simp]: "elem (tabulate [] f) [] = f []"
  by (simp add: elem_tabulate)

section \<open>Shapes of typed tensors\<close>

lemma shape_chw:
  "shape t = bs @ [C, H, W] \<Longrightarrow> dim t = length bs + 3 \<and> channels t = C"
  by (simp add: dim_def channels_def nth_append)

lemma tshape_chw:
  "tshape t = bs @ [C, H, W] \<Longrightarrow> tdim t = length bs + 3 \<and> tchannels t = C"
  by (simp add: tdim_def tchannels_def nth_append)

text \<open>
  The hypothesis \<open>shape t = bs @ [C, H, W]\<close> of the theorems below says what the
  converters test: at least three axes, \<open>C\<close> channels.
\<close>

lemma length_three: "length xs = 3 \<Longrightarrow> \<exists>a b c. xs = [a, b, c]"
  by (auto simp: length_Suc_conv numeral_3_eq_3)

lemma last_three:
  assumes "3 \<le> length sh"
  shows "sh = take (length sh - 3) sh
              @ [sh ! (length sh - 3), sh ! (length sh - 2), sh ! (length sh - 1)]"
proof -
  let ?n = "length sh - 3"
  have "length (drop ?n sh) = 3" using assms by simp
  then obtain a b c where d: "drop ?n sh = [a, b, c]"
    using length_three by blast
  have "sh ! (?n + i) = drop ?n sh ! i" if "i < 3" for i
    using that assms by simp
  from this [of 0] this [of 1] this [of 2] d
  have "a = sh ! ?n" "b = sh ! (?n + 1)" "c = sh ! (?n + 2)" by simp_all
  moreover have "?n + 1 = length sh - 2" "?n + 2 = length sh - 1" using assms by simp_all
  ultimately have "drop ?n sh = [sh ! ?n, sh ! (length sh - 2), sh ! (length sh - 1)]"
    using d by simp
  then show ?thesis
    using append_take_drop_id [of ?n sh] by simp
qed

lemma valid_shape_iff:
  "(\<exists>bs H W. shape t = bs @ [C, H, W]) \<longleftrightarrow> 3 \<le> dim t \<and> channels t = C"
proof
  assume "\<exists>bs H W. shape t = bs @ [C, H, W]"
  then show "3 \<le> dim t \<and> channels t = C"
    using shape_chw by fastforce
next
  assume "3 \<le> dim t \<and> channels t = C"
  then have "shape t = take (dim t - 3) (shape t)
                @ [C, shape t ! (dim t - 2), shape t ! (dim t - 1)]"
    using last_three [of "shape t"] by (simp add: dim_def channels_def)
  then show "\<exists>bs H W. shape t = bs @ [C, H, W]" by blast
qed

lemma valid_tshape_iff:
  "(\<exists>bs H W. tshape t = bs @ [C, H, W]) \<longleftrightarrow> 3 \<le> tdim t \<and> tchannels t = C"
proof
  assume "\<exists>bs H W. tshape t = bs @ [C, H, W]"
  then show "3 \<le> tdim t \<and> tchannels t = C"
    using tshape_chw by fastforce
next
  assume "3 \<le> tdim t \<and> tchannels t = C"
  then have "tshape t = take (tdim t - 3) (tshape t)
                @ [C, tshape t ! (tdim t - 2), tshape t ! (tdim t - 1)]"
    using last_three [of "tshape t"] by (simp add: tdim_def tchannels_def)
  then show "\<exists>bs H W. tshape t = bs @ [C, H, W]" by blast
qed

lemma tshape_bgr_to_rgb [simp]: "tshape (bgr_to_rgb t) = tshape t"
  by (cases t) simp_all

lemma dtype_of_bgr_to_rgb [simp]: "dtype_of (bgr_to_rgb t) = dtype_of t"
  by (cases t) simp_all

lemma grayscale_to_rgb_elem:
  assumes "shape img = bs @ [1, H, W]"
  shows "grayscale_to_rgb img = Inr (concatenate [img, img, img])"
  using shape_chw [OF assms] by (simp add: grayscale_to_rgb_def)

section \<open>Properties of the grayscale conversions\<close>

text \<open>
  C7. For every well-formed input of shape \<open>(*, 1, H, W)\<close>, \<^verbatim>\<open>grayscale_to_rgb\<close>
  returns a tensor of shape \<open>(*, 3, H, W)\<close> whose three channels each hold the
  elements of the input unchanged: cutting any one channel out of the result
  (\<^verbatim>\<open>out[..., k:k+1, :, :]\<close>) gives back the input itself.
\<close>

theorem grayscale_to_rgb_replicates:
  assumes "wf img" and "shape img = bs @ [1, H, W]"
  shows "\<exists>out. grayscale_to_rgb img = Inr out \<and> shape out = bs @ [3, H, W] \<and>
           (\<forall>k<3. slice_channel k out = img) \<and>
           (\<forall>bi k h w. valid_index bs bi \<and> k < 3 \<and> h < H \<and> w < W \<longrightarrow>
              elem out (bi @ [k, h, w]) = elem img (bi @ [0, h, w]))"
proof -
  let ?out = "concatenate [img, img, img]"
  have sh: "shape ?out = bs @ [3, H, W]"
    using assms(2) by (rule shape_concatenate3)
  have el: "elem ?out (bi @ [k, h, w]) = elem img (bi @ [0, h, w])"
    if "valid_index bs bi" "k < 3" "h < H" "w < W" for bi k h w
    using assms(2) that(2,1,3,4) by (rule elem_concatenate3)
  have "slice_channel k ?out = img" if k: "k < 3" for k
  proof (rule tensor_eqI)
    show "wf (slice_channel k ?out)" by simp
    show "wf img" by fact
    show s: "shape (slice_channel k ?out) = shape img"
      using shape_slice_channel [OF sh k] assms(2) by simp
    fix idx
    assume "valid_index (shape (slice_channel k ?out)) idx"
    then have "valid_index (bs @ [1, H, W]) idx" using s assms(2) by simp
    then obtain bi c h w where
      idx: "idx = bi @ [c, h, w]" "valid_index bs bi" "c < 1" "h < H" "w < W"
      by (rule valid_index_chw)
    then have c: "c = 0" by simp
    have "elem (slice_channel k ?out) (bi @ [0, h, w]) = elem ?out (bi @ [k, h, w])"
      using sh k idx(2,4,5) by (rule elem_slice_channel)
    also have "\<dots> = elem img (bi @ [0, h, w])"
      using idx(2) k idx(4,5) by (rule el)
    finally show "elem (slice_channel k ?out) idx = elem img idx"
      using idx(1) c by simp
  qed
  then show ?thesis
    using grayscale_to_rgb_elem [OF assms(2)] sh el by simp
qed

theorem grayscale_to_rgb_replicates_witness:
  "wf \<lparr>shape = [2, 1, 1, 2], data = [1, 2, 3, 4 :: int]\<rparr> \<and>
   shape \<lparr>shape = [2, 1, 1, 2], data = [1, 2, 3, 4 :: int]\<rparr> = [2] @ [1, 1, 2] \<and>
   (\<exists>out. grayscale_to_rgb \<lparr>shape = [2, 1, 1, 2], data = [1, 2, 3, 4 :: int]\<rparr> = Inr out \<and>
      shape out = [2] @ [3, 1, 2] \<and>
      (\<forall>k<3. slice_channel k out = \<lparr>shape = [2, 1, 1, 2], data = [1, 2, 3, 4]\<rparr>) \<and>
      (\<forall>bi k h w. valid_index [2] bi \<and> k < 3 \<and> h < 1 \<and> w < 2 \<longrightarrow>
         elem out (bi @ [k, h, w]) =
         elem \<lparr>shape = [2, 1, 1, 2], data = [1, 2, 3, 4]\<rparr> (bi @ [0, h, w])))"
  using grayscale_to_rgb_replicates
    [of "\<lparr>shape = [2, 1, 1, 2], data = [1, 2, 3, 4 :: int]\<rparr>" "[2]" 1 2]
  by (simp add: wf_def)

lemma grayscale_to_rgb_example:
  "grayscale_to_rgb \<lparr>shape = [2, 1, 1, 2], data = [1, 2, 3, 4 :: int]\<rparr> =
     Inr \<lparr>shape = [2, 3, 1, 2], data = [1, 2, 1, 2, 1, 2, 3, 4, 3, 4, 3, 4]\<rparr>"
  by code_simp

lemma weighted_sum_default:
  fixes t :: "'a::comm_semiring_1 tensor"
  assumes "shape t = bs @ [3, H, W]"
  shows "\<exists>out. weighted_sum t (tensor1 [p, q, r]) = Inr out \<and> wf out \<and>
           shape out = bs @ [1, H, W] \<and>
           (\<forall>bi h w. valid_index bs bi \<and> h < H \<and> w < W \<longrightarrow>
              elem out (bi @ [0, h, w]) =
                p * elem t (bi @ [0, h, w]) + q * elem t (bi @ [1, h, w])
                + r * elem t (bi @ [2, h, w]))"
proof -
  let ?w = "\<lambda>v::'a. tabulate [] (\<lambda>idx. v)"
  let ?prd = "\<lambda>v c. tbinop (*) (?w v) (slice_channel c t)"
  let ?out = "tbinop (+) (tbinop (+) (?prd p 0) (?prd q 1)) (?prd r 2)"
  have ws: "weighted_sum t (tensor1 [p, q, r]) = Inr ?out"
    by (simp add: weighted_sum_def unbind_tensor1_3)
  have sl: "shape (slice_channel c t) = bs @ [1, H, W]" if "c < 3" for c
    using assms that by (rule shape_slice_channel)
  have st: "shape (?prd v c) = bs @ [1, H, W]" if "c < 3" for v c
    using sl [OF that] by (simp add: shape_tbinop_scalar)
  have s2: "shape (tbinop (+) (?prd p 0) (?prd q 1)) = bs @ [1, H, W]"
    using st [of 0 p] st [of 1 q] by (simp add: shape_tbinop_same)
  have sh: "shape ?out = bs @ [1, H, W]"
    using s2 st [of 2 r] by (simp add: shape_tbinop_same)
  have el: "elem ?out (bi @ [0, h, w]) =
              p * elem t (bi @ [0, h, w]) + q * elem t (bi @ [1, h, w])
              + r * elem t (bi @ [2, h, w])"
    if b: "valid_index bs bi" and h: "h < H" and w: "w < W" for bi h w
  proof -
    have v: "valid_index (bs @ [1, H, W]) (bi @ [0, h, w])"
      using that by (intro valid_index_append) simp_all
    have et: "elem (?prd x c) (bi @ [0, h, w]) = x * elem t (bi @ [c, h, w])"
      if c: "c < 3" for x c
    proof -
      have "elem (?prd x c) (bi @ [0, h, w]) = x * elem (slice_channel c t) (bi @ [0, h, w])"
        using v sl [OF c] by (simp add: elem_tbinop_scalar)
      also have "elem (slice_channel c t) (bi @ [0, h, w]) = elem t (bi @ [c, h, w])"
        using assms c b h w by (rule elem_slice_channel)
      finally show ?thesis .
    qed
    have "elem ?out (bi @ [0, h, w]) =
            elem (tbinop (+) (?prd p 0) (?prd q 1)) (bi @ [0, h, w])
            + elem (?prd r 2) (bi @ [0, h, w])"
      using s2 st [of 2 r] v by (simp add: elem_tbinop_same)
    also have "elem (tbinop (+) (?prd p 0) (?prd q 1)) (bi @ [0, h, w]) =
                 elem (?prd p 0) (bi @ [0, h, w]) + elem (?prd q 1) (bi @ [0, h, w])"
      using st [of 0 p] st [of 1 q] v by (simp add: elem_tbinop_same)
    finally show ?thesis by (simp add: et)
  qed
  show ?thesis using ws sh el by simp
qed

lemma rgb_to_grayscale_valid:
  assumes "tshape img = bs @ [3, H, W]"
  shows "rgb_to_grayscale img =
           (case img of
              ByteTensor t \<Rightarrow> map_sum id ByteTensor (weighted_sum t (tensor1 [76, 150, 29]))
            | FloatTensor k t \<Rightarrow>
                map_sum id (FloatTensor k) (weighted_sum t (tensor1 [0.299, 0.587, 0.114]))
            | OtherTensor k t \<Rightarrow> Inl TypeError)"
  using tshape_chw [OF assms] by (simp add: rgb_to_grayscale_def)

text \<open>
  C4, as amended. For every input of shape \<open>(*, 3, H, W)\<close> and no weights supplied,
  \<^verbatim>\<open>rgb_to_grayscale\<close> picks the default weights by the dtype: \<open>[76, 150, 29]\<close>
  for \<^verbatim>\<open>uint8\<close>, \<open>[0.299, 0.587, 0.114]\<close> for \<^verbatim>\<open>float16\<close>, \<^verbatim>\<open>float32\<close> and
  \<^verbatim>\<open>float64\<close>, and raises TypeError for every other dtype, \<^verbatim>\<open>int8\<close> and
  \<^verbatim>\<open>bfloat16\<close> among them. Where it returns, the result has shape \<open>(*, 1, H, W)\<close>
  and is what the sum \<^verbatim>\<open>w_r * r + w_g * g + w_b * b\<close> gives with those weights; for
  the three float dtypes that is \<open>0.299 * R + 0.587 * G + 0.114 * B\<close> at every
  pixel (exactly, in real arithmetic). Nothing is said here of the values of the
  \<^verbatim>\<open>uint8\<close> result. The claim as worded fails on an \<^verbatim>\<open>int8\<close> and on a
  \<^verbatim>\<open>bfloat16\<close> image, which the code rejects; the closed theorem after the
  witness shows both.
\<close>

theorem rgb_to_grayscale_default_weights:
  fixes tb :: "8 word tensor" and tf :: "real tensor" and tx :: "real tensor"
  assumes "shape tb = bs @ [3, H, W]"
    and "shape tf = bs' @ [3, H', W']"
    and "shape tx = bs'' @ [3, H'', W'']"
  shows "(\<exists>out. rgb_to_grayscale (ByteTensor tb) = Inr (ByteTensor out) \<and>
            weighted_sum tb (tensor1 [76, 150, 29]) = Inr out \<and>
            shape out = bs @ [1, H, W]) \<and>
         (\<exists>out. rgb_to_grayscale (FloatTensor k tf) = Inr (FloatTensor k out) \<and>
            weighted_sum tf (tensor1 [0.299, 0.587, 0.114]) = Inr out \<and>
            shape out = bs' @ [1, H', W'] \<and>
            (\<forall>bi h w. valid_index bs' bi \<and> h < H' \<and> w < W' \<longrightarrow>
               elem out (bi @ [0, h, w]) =
                 0.299 * elem tf (bi @ [0, h, w]) + 0.587 * elem tf (bi @ [1, h, w])
                 + 0.114 * elem tf (bi @ [2, h, w]))) \<and>
         rgb_to_grayscale (OtherTensor k' tx) = Inl TypeError"
proof (intro conjI)
  have ts: "tshape (ByteTensor tb) = bs @ [3, H, W]" using assms(1) by simp
  from weighted_sum_default [OF assms(1), of 76 150 29]
  show "\<exists>out. rgb_to_grayscale (ByteTensor tb) = Inr (ByteTensor out) \<and>
          weighted_sum tb (tensor1 [76, 150, 29]) = Inr out \<and>
          shape out = bs @ [1, H, W]"
    using rgb_to_grayscale_valid [OF ts] by auto
next
  have ts: "tshape (FloatTensor k tf) = bs' @ [3, H', W']" using assms(2) by simp
  from weighted_sum_default [OF assms(2), of "0.299" "0.587" "0.114"]
  show "\<exists>out. rgb_to_grayscale (FloatTensor k tf) = Inr (FloatTensor k out) \<and>
          weighted_sum tf (tensor1 [0.299, 0.587, 0.114]) = Inr out \<and>
          shape out = bs' @ [1, H', W'] \<and>
          (\<forall>bi h w. valid_index bs' bi \<and> h < H' \<and> w < W' \<longrightarrow>
             elem out (bi @ [0, h, w]) =
               0.299 * elem tf (bi @ [0, h, w]) + 0.587 * elem tf (bi @ [1, h, w])
               + 0.114 * elem tf (bi @ [2, h, w]))"
    using rgb_to_grayscale_valid [OF ts] by auto
next
  have ts: "tshape (OtherTensor k' tx) = bs'' @ [3, H'', W'']" using assms(3) by simp
  show "rgb_to_grayscale (OtherTensor k' tx) = Inl TypeError"
    using rgb_to_grayscale_valid [OF ts] by simp
qed

theorem rgb_to_grayscale_default_weights_witness:
  "shape \<lparr>shape = [3, 1, 1], data = [10, 20, 30 :: 8 word]\<rparr> = [] @ [3, 1, 1] \<and>
   shape \<lparr>shape = [2, 3, 1, 1], data = [1, 0, 0, 0.5, 0.5, 0.5 :: real]\<rparr> = [2] @ [3, 1, 1] \<and>
   shape \<lparr>shape = [3, 1, 1], data = [1, 2, 3 :: real]\<rparr> = [] @ [3, 1, 1] \<and>
   (\<exists>out. rgb_to_grayscale (ByteTensor \<lparr>shape = [3, 1, 1], data = [10, 20, 30]\<rparr>) =
            Inr (ByteTensor out) \<and>
      weighted_sum \<lparr>shape = [3, 1, 1], data = [10, 20, 30 :: 8 word]\<rparr>
        (tensor1 [76, 150, 29]) = Inr out \<and>
      shape out = [] @ [1, 1, 1]) \<and>
   (\<exists>out. rgb_to_grayscale
              (FloatTensor Float32 \<lparr>shape = [2, 3, 1, 1], data = [1, 0, 0, 0.5, 0.5, 0.5]\<rparr>) =
            Inr (FloatTensor Float32 out) \<and>
      weighted_sum \<lparr>shape = [2, 3, 1, 1], data = [1, 0, 0, 0.5, 0.5, 0.5 :: real]\<rparr>
        (tensor1 [0.299, 0.587, 0.114]) = Inr out \<and>
      shape out = [2] @ [1, 1, 1] \<and>
      (\<forall>bi h w. valid_index [2] bi \<and> h < 1 \<and> w < 1 \<longrightarrow>
         elem out (bi @ [0, h, w]) =
           0.299 * elem \<lparr>shape = [2, 3, 1, 1], data = [1, 0, 0, 0.5, 0.5, 0.5]\<rparr> (bi @ [0, h, w])
           + 0.587 * elem \<lparr>shape = [2, 3, 1, 1], data = [1, 0, 0, 0.5, 0.5, 0.5]\<rparr> (bi @ [1, h, w])
           + 0.114 * elem \<lparr>shape = [2, 3, 1, 1], data = [1, 0, 0, 0.5, 0.5, 0.5]\<rparr> (bi @ [2, h, w]))) \<and>
   rgb_to_grayscale (OtherTensor Int8 \<lparr>shape = [3, 1, 1], data = [1, 2, 3]\<rparr>) = Inl TypeError"
proof -
  have a: "shape \<lparr>shape = [3, 1, 1], data = [10, 20, 30 :: 8 word]\<rparr> = [] @ [3, 1, 1]"
    by simp
  have b: "shape \<lparr>shape = [2, 3, 1, 1], data = [1, 0, 0, 0.5, 0.5, 0.5 :: real]\<rparr> = [2] @ [3, 1, 1]"
    by simp
  have c: "shape \<lparr>shape = [3, 1, 1], data = [1, 2, 3 :: real]\<rparr> = [] @ [3, 1, 1]"
    by simp
  show ?thesis
    by (rule conjI [OF a conjI [OF b conjI [OF c
          rgb_to_grayscale_default_weights [OF a b c, of Float32 Int8]]]])
qed

theorem rgb_to_grayscale_dtype_counterexample:
  "eight_bit_integer (dtype_of (OtherTensor Int8 \<lparr>shape = [3, 1, 1], data = [1, 2, 3]\<rparr>)) \<and>
   rgb_to_grayscale (OtherTensor Int8 \<lparr>shape = [3, 1, 1], data = [1, 2, 3]\<rparr>) = Inl TypeError \<and>
   floating_point (dtype_of (OtherTensor BFloat16 \<lparr>shape = [3, 1, 1], data = [0.5, 0.5, 0.5]\<rparr>)) \<and>
   rgb_to_grayscale (OtherTensor BFloat16 \<lparr>shape = [3, 1, 1], data = [0.5, 0.5, 0.5]\<rparr>) =
     Inl TypeError"
  by (simp add: eight_bit_integer_def floating_point_def rgb_to_grayscale_def tdim_def
      tchannels_def)

lemma rgb_to_grayscale_float_example:
  "rgb_to_grayscale
     (FloatTensor Float32 \<lparr>shape = [2, 3, 1, 1], data = [1, 0, 0, 0.5, 0.5, 0.5]\<rparr>) =
   Inr (FloatTensor Float32 \<lparr>shape = [2, 1, 1, 1], data = [0.299, 0.5]\<rparr>)"
  by code_simp

lemma rgb_to_grayscale_other_examples:
  "rgb_to_grayscale (OtherTensor Int8 \<lparr>shape = [3, 1, 1], data = [1, 2, 3]\<rparr>) = Inl TypeError"
  "rgb_to_grayscale (OtherTensor BFloat16 \<lparr>shape = [3, 1, 1], data = [1, 2, 3]\<rparr>) = Inl TypeError"
  "rgb_to_grayscale (OtherTensor Int64 \<lparr>shape = [3, 1, 1], data = [1, 2, 3]\<rparr>) = Inl TypeError"
  by code_simp+

lemma unat_weighted_u8:
  fixes x y z :: "8 word"
  shows "unat (76 * x + 150 * y + 29 * z) = (76 * unat x + 150 * unat y + 29 * unat z) mod 256"
  by (simp add: unat_word_ariths mod_simps)

text \<open>
  C5. For every \<^verbatim>\<open>uint8\<close> input of shape \<open>(*, 3, H, W)\<close> and no weights supplied,
  the weighted sum \<open>76 * R + 150 * G + 29 * B\<close> is computed on bytes: each product
  and the sum are taken modulo 256. At a pixel whose true weighted sum \<open>s\<close>
  exceeds 255 the result is \<open>s mod 256\<close>, which differs from \<open>s\<close> by a positive
  multiple of 256.
\<close>

theorem rgb_to_grayscale_uint8_wraps:
  assumes "shape t = bs @ [3, H, W]"
  shows "\<exists>out. rgb_to_grayscale (ByteTensor t) = Inr (ByteTensor out) \<and>
           (\<forall>bi h w. valid_index bs bi \<and> h < H \<and> w < W \<longrightarrow>
              (let R = elem t (bi @ [0, h, w]);
                   G = elem t (bi @ [1, h, w]);
                   B = elem t (bi @ [2, h, w]);
                   s = 76 * unat R + 150 * unat G + 29 * unat B
               in elem out (bi @ [0, h, w]) = 76 * R + 150 * G + 29 * B \<and>
                  unat (76 * R) = 76 * unat R mod 256 \<and>
                  unat (150 * G) = 150 * unat G mod 256 \<and>
                  unat (29 * B) = 29 * unat B mod 256 \<and>
                  unat (elem out (bi @ [0, h, w])) = s mod 256 \<and>
                  (255 < s \<longrightarrow> unat (elem out (bi @ [0, h, w])) \<noteq> s \<and>
                     unat (elem out (bi @ [0, h, w])) + 256 * (s div 256) = s \<and>
                     1 \<le> s div 256)))"
proof -
  have ts: "tshape (ByteTensor t) = bs @ [3, H, W]" using assms by simp
  from weighted_sum_default [OF assms, of 76 150 29] obtain out where
    out: "weighted_sum t (tensor1 [76, 150, 29]) = Inr out"
    and el: "\<And>bi h w. valid_index bs bi \<Longrightarrow> h < H \<Longrightarrow> w < W \<Longrightarrow>
              elem out (bi @ [0, h, w]) =
                76 * elem t (bi @ [0, h, w]) + 150 * elem t (bi @ [1, h, w])
                + 29 * elem t (bi @ [2, h, w])"
    by blast
  have r: "rgb_to_grayscale (ByteTensor t) = Inr (ByteTensor out)"
    using rgb_to_grayscale_valid [OF ts] out by simp
  have px: "let R = elem t (bi @ [0, h, w]);
                G = elem t (bi @ [1, h, w]);
                B = elem t (bi @ [2, h, w]);
                s = 76 * unat R + 150 * unat G + 29 * unat B
            in elem out (bi @ [0, h, w]) = 76 * R + 150 * G + 29 * B \<and>
               unat (76 * R) = 76 * unat R mod 256 \<and>
               unat (150 * G) = 150 * unat G mod 256 \<and>
               unat (29 * B) = 29 * unat B mod 256 \<and>
               unat (elem out (bi @ [0, h, w])) = s mod 256 \<and>
               (255 < s \<longrightarrow> unat (elem out (bi @ [0, h, w])) \<noteq> s \<and>
                  unat (elem out (bi @ [0, h, w])) + 256 * (s div 256) = s \<and>
                  1 \<le> s div 256)"
    if v: "valid_index bs bi" "h < H" "w < W" for bi h w
  proof -
    define R where "R = elem t (bi @ [0, h, w])"
    define G where "G = elem t (bi @ [1, h, w])"
    define B where "B = elem t (bi @ [2, h, w])"
    define s where "s = 76 * unat R + 150 * unat G + 29 * unat B"
    have e: "elem out (bi @ [0, h, w]) = 76 * R + 150 * G + 29 * B"
      using el [OF v] by (simp add: R_def G_def B_def)
    have u: "unat (elem out (bi @ [0, h, w])) = s mod 256"
      unfolding e s_def by (rule unat_weighted_u8)
    have p: "unat (c * x) = unat c * unat x mod 256" for c x :: "8 word"
      by (simp add: unat_word_ariths)
    have ne: "s mod 256 \<noteq> s" if "255 < s"
    proof -
      have "s mod 256 < 256" by simp
      then show ?thesis using that by linarith
    qed
    have dm: "s mod 256 + 256 * (s div 256) = s" by simp
    have ge: "1 \<le> s div 256" if "255 < s"
      using that by (simp add: Suc_le_eq div_greater_zero_iff)
    have "elem out (bi @ [0, h, w]) = 76 * R + 150 * G + 29 * B \<and>
          unat (76 * R) = 76 * unat R mod 256 \<and>
          unat (150 * G) = 150 * unat G mod 256 \<and>
          unat (29 * B) = 29 * unat B mod 256 \<and>
          unat (elem out (bi @ [0, h, w])) = s mod 256 \<and>
          (255 < s \<longrightarrow> unat (elem out (bi @ [0, h, w])) \<noteq> s \<and>
             unat (elem out (bi @ [0, h, w])) + 256 * (s div 256) = s \<and>
             1 \<le> s div 256)"
      using e u ne dm ge by (simp add: p)
    then show ?thesis
      unfolding Let_def R_def G_def B_def s_def .
  qed
  show ?thesis
    using r px by blast
qed

lemma rgb_to_grayscale_white_example:
  "rgb_to_grayscale (ByteTensor \<lparr>shape = [3, 1, 2], data = [255, 3, 255, 0, 255, 1]\<rparr>) =
     Inr (ByteTensor \<lparr>shape = [1, 1, 2], data = [1, 1]\<rparr>)"
  by code_simp

theorem rgb_to_grayscale_uint8_wraps_witness:
  "shape \<lparr>shape = [3, 1, 2], data = [255, 3, 255, 0, 255, 1 :: 8 word]\<rparr> = [] @ [3, 1, 2] \<and>
   (\<exists>out. rgb_to_grayscale
              (ByteTensor \<lparr>shape = [3, 1, 2], data = [255, 3, 255, 0, 255, 1]\<rparr>) =
            Inr (ByteTensor out) \<and>
      (\<forall>bi h w. valid_index [] bi \<and> h < 1 \<and> w < 2 \<longrightarrow>
         (let R = elem \<lparr>shape = [3, 1, 2], data = [255, 3, 255, 0, 255, 1 :: 8 word]\<rparr> (bi @ [0, h, w]);
              G = elem \<lparr>shape = [3, 1, 2], data = [255, 3, 255, 0, 255, 1 :: 8 word]\<rparr> (bi @ [1, h, w]);
              B = elem \<lparr>shape = [3, 1, 2], data = [255, 3, 255, 0, 255, 1 :: 8 word]\<rparr> (bi @ [2, h, w]);
              s = 76 * unat R + 150 * unat G + 29 * unat B
          in elem out (bi @ [0, h, w]) = 76 * R + 150 * G + 29 * B \<and>
             unat (76 * R) = 76 * unat R mod 256 \<and>
             unat (150 * G) = 150 * unat G mod 256 \<and>
             unat (29 * B) = 29 * unat B mod 256 \<and>
             unat (elem out (bi @ [0, h, w])) = s mod 256 \<and>
             (255 < s \<longrightarrow> unat (elem out (bi @ [0, h, w])) \<noteq> s \<and>
                unat (elem out (bi @ [0, h, w])) + 256 * (s div 256) = s \<and>
                1 \<le> s div 256))))"
  using rgb_to_grayscale_uint8_wraps
    [of "\<lparr>shape = [3, 1, 2], data = [255, 3, 255, 0, 255, 1]\<rparr>" "[]" 1 2]
  by simp

lemma bgr_to_grayscale_valid:
  assumes "tshape img = bs @ [3, H, W]"
  shows "bgr_to_grayscale img = rgb_to_grayscale (bgr_to_rgb img)"
  using tshape_chw [OF assms] by (simp add: bgr_to_grayscale_def)

text \<open>
  C6. For every input of shape \<open>(*, 3, H, W)\<close>, \<^verbatim>\<open>bgr_to_grayscale\<close> is
  \<^verbatim>\<open>rgb_to_grayscale\<close> (with the default weights) of the image with its channel
  axis reversed. So the weight of red meets channel 2 of the input, the weight of
  blue channel 0.
\<close>

theorem bgr_to_grayscale_reverses_channels:
  fixes tb :: "8 word tensor" and tf :: "real tensor"
  assumes "tshape img = bs @ [3, H, W]"
    and "shape tb = bs' @ [3, H', W']"
    and "shape tf = bs'' @ [3, H'', W'']"
  shows "bgr_to_grayscale img = rgb_to_grayscale (bgr_to_rgb img) \<and>
         (\<exists>out. bgr_to_grayscale (ByteTensor tb) = Inr (ByteTensor out) \<and>
            (\<forall>bi h w. valid_index bs' bi \<and> h < H' \<and> w < W' \<longrightarrow>
               elem out (bi @ [0, h, w]) =
                 76 * elem tb (bi @ [2, h, w]) + 150 * elem tb (bi @ [1, h, w])
                 + 29 * elem tb (bi @ [0, h, w]))) \<and>
         (\<exists>out. bgr_to_grayscale (FloatTensor k tf) = Inr (FloatTensor k out) \<and>
            (\<forall>bi h w. valid_index bs'' bi \<and> h < H'' \<and> w < W'' \<longrightarrow>
               elem out (bi @ [0, h, w]) =
                 0.299 * elem tf (bi @ [2, h, w]) + 0.587 * elem tf (bi @ [1, h, w])
                 + 0.114 * elem tf (bi @ [0, h, w])))"
proof (intro conjI)
  show "bgr_to_grayscale img = rgb_to_grayscale (bgr_to_rgb img)"
    using assms(1) by (rule bgr_to_grayscale_valid)
next
  have fl: "elem (flip_channels tb) (bi @ [c, h, w]) = elem tb (bi @ [3 - 1 - c, h, w])"
    if "c < 3" "valid_index bs' bi" "h < H'" "w < W'" for bi c h w
    using assms(2) that by (rule elem_flip_channels)
  have ts: "tshape (ByteTensor tb) = bs' @ [3, H', W']" using assms(2) by simp
  have sf: "shape (flip_channels tb) = bs' @ [3, H', W']" using assms(2) by simp
  from weighted_sum_default [OF sf, of 76 150 29]
  show "\<exists>out. bgr_to_grayscale (ByteTensor tb) = Inr (ByteTensor out) \<and>
          (\<forall>bi h w. valid_index bs' bi \<and> h < H' \<and> w < W' \<longrightarrow>
             elem out (bi @ [0, h, w]) =
               76 * elem tb (bi @ [2, h, w]) + 150 * elem tb (bi @ [1, h, w])
               + 29 * elem tb (bi @ [0, h, w]))"
    using bgr_to_grayscale_valid [OF ts] rgb_to_grayscale_valid [of "ByteTensor (flip_channels tb)", OF sf [folded tshape.simps(1)]]
    by (auto simp: fl)
next
  have fl: "elem (flip_channels tf) (bi @ [c, h, w]) = elem tf (bi @ [3 - 1 - c, h, w])"
    if "c < 3" "valid_index bs'' bi" "h < H''" "w < W''" for bi c h w
    using assms(3) that by (rule elem_flip_channels)
  have ts: "tshape (FloatTensor k tf) = bs'' @ [3, H'', W'']" using assms(3) by simp
  have sf: "shape (flip_channels tf) = bs'' @ [3, H'', W'']" using assms(3) by simp
  have tsf: "tshape (FloatTensor k (flip_channels tf)) = bs'' @ [3, H'', W'']" using sf by simp
  from weighted_sum_default [OF sf, of "0.299" "0.587" "0.114"]
  show "\<exists>out. bgr_to_grayscale (FloatTensor k tf) = Inr (FloatTensor k out) \<and>
          (\<forall>bi h w. valid_index bs'' bi \<and> h < H'' \<and> w < W'' \<longrightarrow>
             elem out (bi @ [0, h, w]) =
               0.299 * elem tf (bi @ [2, h, w]) + 0.587 * elem tf (bi @ [1, h, w])
               + 0.114 * elem tf (bi @ [0, h, w]))"
    using bgr_to_grayscale_valid [OF ts] rgb_to_grayscale_valid [OF tsf]
    by (auto simp: fl)
qed

theorem bgr_to_grayscale_reverses_channels_witness:
  "tshape (FloatTensor Float64 \<lparr>shape = [3, 1, 1], data = [0.1, 0.2, 0.3]\<rparr>) = [] @ [3, 1, 1] \<and>
   shape \<lparr>shape = [3, 1, 1], data = [1, 2, 3 :: 8 word]\<rparr> = [] @ [3, 1, 1] \<and>
   shape \<lparr>shape = [3, 1, 1], data = [0.1, 0.2, 0.3 :: real]\<rparr> = [] @ [3, 1, 1] \<and>
   bgr_to_grayscale (FloatTensor Float64 \<lparr>shape = [3, 1, 1], data = [0.1, 0.2, 0.3]\<rparr>) =
     rgb_to_grayscale (bgr_to_rgb (FloatTensor Float64 \<lparr>shape = [3, 1, 1], data = [0.1, 0.2, 0.3]\<rparr>)) \<and>
   (\<exists>out. bgr_to_grayscale (ByteTensor \<lparr>shape = [3, 1, 1], data = [1, 2, 3]\<rparr>) =
            Inr (ByteTensor out) \<and>
      (\<forall>bi h w. valid_index [] bi \<and> h < 1 \<and> w < 1 \<longrightarrow>
         elem out (bi @ [0, h, w]) =
           76 * elem \<lparr>shape = [3, 1, 1], data = [1, 2, 3]\<rparr> (bi @ [2, h, w])
           + 150 * elem \<lparr>shape = [3, 1, 1], data = [1, 2, 3]\<rparr> (bi @ [1, h, w])
           + 29 * elem \<lparr>shape = [3, 1, 1], data = [1, 2, 3]\<rparr> (bi @ [0, h, w]))) \<and>
   (\<exists>out. bgr_to_grayscale (FloatTensor Float64 \<lparr>shape = [3, 1, 1], data = [0.1, 0.2, 0.3]\<rparr>) =
            Inr (FloatTensor Float64 out) \<and>
      (\<forall>bi h w. valid_index [] bi \<and> h < 1 \<and> w < 1 \<longrightarrow>
         elem out (bi @ [0, h, w]) =
           0.299 * elem \<lparr>shape = [3, 1, 1], data = [0.1, 0.2, 0.3]\<rparr> (bi @ [2, h, w])
           + 0.587 * elem \<lparr>shape = [3, 1, 1], data = [0.1, 0.2, 0.3]\<rparr> (bi @ [1, h, w])
           + 0.114 * elem \<lparr>shape = [3, 1, 1], data = [0.1, 0.2, 0.3]\<rparr> (bi @ [0, h, w])))"
proof -
  have a: "tshape (FloatTensor Float64 \<lparr>shape = [3, 1, 1], data = [0.1, 0.2, 0.3]\<rparr>) =
             [] @ [3, 1, 1]"
    by simp
  have b: "shape \<lparr>shape = [3, 1, 1], data = [1, 2, 3 :: 8 word]\<rparr> = [] @ [3, 1, 1]"
    by simp
  have c: "shape \<lparr>shape = [3, 1, 1], data = [0.1, 0.2, 0.3 :: real]\<rparr> = [] @ [3, 1, 1]"
    by simp
  show ?thesis
    by (rule conjI [OF a conjI [OF b conjI [OF c
          bgr_to_grayscale_reverses_channels [OF a b c, of Float64]]]])
qed

lemma bgr_to_grayscale_example:
  "bgr_to_grayscale (ByteTensor \<lparr>shape = [3, 1, 1], data = [1, 0, 2]\<rparr>) =
     Inr (ByteTensor \<lparr>shape = [1, 1, 1], data = [181]\<rparr>)"
  "bgr_to_rgb (ByteTensor \<lparr>shape = [3, 1, 2], data = [1, 2, 3, 4, 5, 6]\<rparr>) =
     ByteTensor \<lparr>shape = [3, 1, 2], data = [5, 6, 3, 4, 1, 2]\<rparr>"
  by code_simp+

text \<open>
  C8. A converter given a tensor with at least three axes whose channel axis has
  the wrong size (not 1 for \<^verbatim>\<open>grayscale_to_rgb\<close>, not 3 for the others) returns
  ValueError and no tensor; \<^verbatim>\<open>rgb_to_grayscale\<close> and \<^verbatim>\<open>bgr_to_grayscale\<close> given
  three channels of a dtype without default weights return TypeError and no
  tensor. The outcome is fixed by the shape and the dtype alone, whatever the
  elements are, so the same invalid input always gives the same error.
\<close>

theorem converters_raise_on_invalid_input:
  fixes g :: "'a tensor" and x :: "real tensor"
  assumes "shape g = bs1 @ [C1, H1, W1]" "C1 \<noteq> 1"
    and "tshape t = bs2 @ [C2, H2, W2]" "C2 \<noteq> 3"
    and "shape x = bs3 @ [C3, H3, W3]" "C3 \<noteq> 3"
    and "shape u = bs4 @ [3, H4, W4]"
  shows "grayscale_to_rgb g = Inl ValueError \<and>
         rgb_to_grayscale t = Inl ValueError \<and>
         bgr_to_grayscale t = Inl ValueError \<and>
         rgb_to_lab m x = Inl ValueError \<and>
         lab_to_rgb m' x clip = Inl ValueError \<and>
         rgb_to_grayscale (OtherTensor k u) = Inl TypeError \<and>
         bgr_to_grayscale (OtherTensor k u) = Inl TypeError"
proof -
  have tu: "tshape (OtherTensor k u) = bs4 @ [3, H4, W4]" using assms(7) by simp
  have tf: "tshape (bgr_to_rgb (OtherTensor k u)) = bs4 @ [3, H4, W4]" using assms(7) by simp
  have "bgr_to_grayscale (OtherTensor k u) = Inl TypeError"
    using bgr_to_grayscale_valid [OF tu] rgb_to_grayscale_valid [OF tf] by simp
  moreover have "rgb_to_grayscale (OtherTensor k u) = Inl TypeError"
    using rgb_to_grayscale_valid [OF tu] by simp
  ultimately show ?thesis
    using shape_chw [OF assms(1)] tshape_chw [OF assms(3)] shape_chw [OF assms(5)] assms(2,4,6)
    by (simp add: grayscale_to_rgb_def rgb_to_grayscale_def bgr_to_grayscale_def
        rgb_to_lab_def lab_to_rgb_def)
qed

theorem converters_raise_on_invalid_input_witness:
  "shape \<lparr>shape = [3, 1, 1], data = [1, 2, 3 :: int]\<rparr> = [] @ [3, 1, 1] \<and> (3::nat) \<noteq> 1 \<and>
   tshape (FloatTensor Float32 \<lparr>shape = [2, 1, 1], data = [0.5, 0.5]\<rparr>) = [] @ [2, 1, 1] \<and>
   (2::nat) \<noteq> 3 \<and>
   shape \<lparr>shape = [4, 1, 1], data = [1, 2, 3, 4 :: real]\<rparr> = [] @ [4, 1, 1] \<and> (4::nat) \<noteq> 3 \<and>
   shape \<lparr>shape = [3, 1, 1], data = [1, 2, 3 :: real]\<rparr> = [] @ [3, 1, 1] \<and>
   grayscale_to_rgb \<lparr>shape = [3, 1, 1], data = [1, 2, 3 :: int]\<rparr> = Inl ValueError \<and>
   rgb_to_grayscale (FloatTensor Float32 \<lparr>shape = [2, 1, 1], data = [0.5, 0.5]\<rparr>) = Inl ValueError \<and>
   bgr_to_grayscale (FloatTensor Float32 \<lparr>shape = [2, 1, 1], data = [0.5, 0.5]\<rparr>) = Inl ValueError \<and>
   rgb_to_lab (\<lambda>i j. if i = j then 1 else 0) \<lparr>shape = [4, 1, 1], data = [1, 2, 3, 4]\<rparr> = Inl ValueError \<and>
   lab_to_rgb (\<lambda>i j. if i = j then 1 else 0) \<lparr>shape = [4, 1, 1], data = [1, 2, 3, 4]\<rparr> True =
     Inl ValueError \<and>
   rgb_to_grayscale (OtherTensor Int32 \<lparr>shape = [3, 1, 1], data = [1, 2, 3]\<rparr>) = Inl TypeError \<and>
   bgr_to_grayscale (OtherTensor Int32 \<lparr>shape = [3, 1, 1], data = [1, 2, 3]\<rparr>) = Inl TypeError"
  using converters_raise_on_invalid_input
    [of "\<lparr>shape = [3, 1, 1], data = [1, 2, 3 :: int]\<rparr>" "[]" 3 1 1
        "FloatTensor Float32 \<lparr>shape = [2, 1, 1], data = [0.5, 0.5]\<rparr>" "[]" 2 1 1
        "\<lparr>shape = [4, 1, 1], data = [1, 2, 3, 4]\<rparr>" "[]" 4 1 1
        "\<lparr>shape = [3, 1, 1], data = [1, 2, 3]\<rparr>" "[]" 1 1
        "\<lambda>i j. if i = j then 1 else 0" "\<lambda>i j. if i = j then 1 else 0" True Int32]
  by simp

text \<open>
  C10. Every converter returns ValueError for a tensor with fewer than three axes,
  whatever its sizes are.
\<close>

theorem converters_reject_low_rank:
  fixes g :: "'a tensor" and x :: "real tensor"
  assumes "dim g < 3" and "tdim t < 3" and "dim x < 3"
  shows "grayscale_to_rgb g = Inl ValueError \<and>
         rgb_to_grayscale t = Inl ValueError \<and>
         bgr_to_grayscale t = Inl ValueError \<and>
         rgb_to_lab m x = Inl ValueError \<and>
         lab_to_rgb m' x clip = Inl ValueError"
  using assms
  by (simp add: grayscale_to_rgb_def rgb_to_grayscale_def bgr_to_grayscale_def
      rgb_to_lab_def lab_to_rgb_def)

theorem converters_reject_low_rank_witness:
  "dim \<lparr>shape = [1, 2], data = [1, 2 :: int]\<rparr> < 3 \<and>
   tdim (ByteTensor \<lparr>shape = [3, 2], data = [1, 2, 3, 4, 5, 6]\<rparr>) < 3 \<and>
   dim \<lparr>shape = [3], data = [1, 2, 3 :: real]\<rparr> < 3 \<and>
   grayscale_to_rgb \<lparr>shape = [1, 2], data = [1, 2 :: int]\<rparr> = Inl ValueError \<and>
   rgb_to_grayscale (ByteTensor \<lparr>shape = [3, 2], data = [1, 2, 3, 4, 5, 6]\<rparr>) = Inl ValueError \<and>
   bgr_to_grayscale (ByteTensor \<lparr>shape = [3, 2], data = [1, 2, 3, 4, 5, 6]\<rparr>) = Inl ValueError \<and>
   rgb_to_lab (\<lambda>i j. if i = j then 1 else 0) \<lparr>shape = [3], data = [1, 2, 3]\<rparr> = Inl ValueError \<and>
   lab_to_rgb (\<lambda>i j. if i = j then 1 else 0) \<lparr>shape = [3], data = [1, 2, 3]\<rparr> False =
     Inl ValueError"
  using converters_reject_low_rank
    [of "\<lparr>shape = [1, 2], data = [1, 2 :: int]\<rparr>"
        "ByteTensor \<lparr>shape = [3, 2], data = [1, 2, 3, 4, 5, 6]\<rparr>"
        "\<lparr>shape = [3], data = [1, 2, 3]\<rparr>"
        "\<lambda>i j. if i = j then 1 else 0" "\<lambda>i j. if i = j then 1 else 0" False]
  by (simp add: dim_def tdim_def)

section \<open>The Lab pipeline, element by element\<close>

lemma matrix_transform_valid:
  assumes "shape x = bs @ [3, H, W]"
  shows "\<exists>out. matrix_transform m x = Inr out \<and> wf out \<and> shape out = bs @ [3, H, W] \<and>
           (\<forall>bi c h w. valid_index bs bi \<and> c < 3 \<and> h < H \<and> w < W \<longrightarrow>
              elem out (bi @ [c, h, w]) =
                m c 0 * elem x (bi @ [0, h, w]) + m c 1 * elem x (bi @ [1, h, w])
                + m c 2 * elem x (bi @ [2, h, w]))"
proof -
  let ?n = "length bs + 3"
  let ?out = "tabulate (bs @ [3, H, W])
      (\<lambda>idx. m (idx ! (?n - 3)) 0 * elem x (idx[?n - 3 := 0])
           + m (idx ! (?n - 3)) 1 * elem x (idx[?n - 3 := 1])
           + m (idx ! (?n - 3)) 2 * elem x (idx[?n - 3 := 2]))"
  have r: "matrix_transform m x = Inr ?out"
    using shape_chw [OF assms] assms by (simp add: matrix_transform_def Let_def)
  have "elem ?out (bi @ [c, h, w]) =
          m c 0 * elem x (bi @ [0, h, w]) + m c 1 * elem x (bi @ [1, h, w])
          + m c 2 * elem x (bi @ [2, h, w])"
    if "valid_index bs bi" "c < 3" "h < H" "w < W" for bi c h w
  proof -
    have len: "length bi = length bs" using that(1) by (rule valid_index_length)
    have "valid_index (bs @ [3, H, W]) (bi @ [c, h, w])"
      using that by (intro valid_index_append) simp_all
    then show ?thesis
      using len by (simp add: elem_tabulate nth_append list_update_append)
  qed
  then show ?thesis using r by simp
qed

lemma shape_white: "shape (unsqueeze2 (tensor1 [p, q, r])) = [3, 1, 1]"
  by (simp add: unsqueeze2_def tensor1_def)

lemma elem_white:
  "elem (unsqueeze2 (tensor1 [p, q, r])) [0, 0, 0] = p"
  "elem (unsqueeze2 (tensor1 [p, q, r])) [1, 0, 0] = q"
  "elem (unsqueeze2 (tensor1 [p, q, r])) [2, 0, 0] = r"
  by (simp_all add: unsqueeze2_def tensor1_def elem_def)

lemma lab_f_eq:
  "(if t > 0.008856 then (max 0.008856 t) powr (1 / 3) else 7.787 * t + 4 / 29) = lab_f t"
proof (cases "t > 0.008856")
  case True
  then have "0 < t" by simp
  then have "root 3 t = t powr (1 / 3)"
    using root_powr_inverse [of 3 t] by simp
  then show ?thesis using True by (simp add: lab_f_def max_def)
next
  case False
  then show ?thesis by (simp add: lab_f_def)
qed

lemma shape_xyz_int:
  assumes "shape nrm = bs @ [3, H, W]"
  shows "shape (twhere (tmap (\<lambda>v. v > 0.008856) nrm)
                  (tmap (\<lambda>v. v powr (1 / 3.0)) (tmap (max 0.008856) nrm))
                  (tmap (\<lambda>v. 7.787 * v + 4.0 / 29.0) nrm)) = bs @ [3, H, W]"
  using assms by (simp add: shape_twhere_same)

lemma elem_xyz_int:
  assumes "shape nrm = bs @ [3, H, W]" "wf nrm"
    and "valid_index bs bi" "c < 3" "h < H" "w < W"
  shows "elem (twhere (tmap (\<lambda>v. v > 0.008856) nrm)
                  (tmap (\<lambda>v. v powr (1 / 3.0)) (tmap (max 0.008856) nrm))
                  (tmap (\<lambda>v. 7.787 * v + 4.0 / 29.0) nrm)) (bi @ [c, h, w])
         = lab_f (elem nrm (bi @ [c, h, w]))"
proof -
  have v: "valid_index (shape nrm) (bi @ [c, h, w])"
    using assms by (simp add: valid_index_append)
  have "elem (twhere (tmap (\<lambda>v. v > 0.008856) nrm)
                  (tmap (\<lambda>v. v powr (1 / 3.0)) (tmap (max 0.008856) nrm))
                  (tmap (\<lambda>v. 7.787 * v + 4.0 / 29.0) nrm)) (bi @ [c, h, w])
        = (if elem nrm (bi @ [c, h, w]) > 0.008856
           then (max 0.008856 (elem nrm (bi @ [c, h, w]))) powr (1 / 3)
           else 7.787 * elem nrm (bi @ [c, h, w]) + 4 / 29)"
    using v assms(2) by (simp add: elem_twhere_same elem_tmap)
  then show ?thesis
    by (simp only: lab_f_eq)
qed

lemma rgb_to_linear_rgb_elem:
  assumes "wf img" "shape img = bs @ [3, H, W]"
  shows "wf (rgb_to_linear_rgb img)" "shape (rgb_to_linear_rgb img) = bs @ [3, H, W]"
    and "valid_index bs bi \<Longrightarrow> c < 3 \<Longrightarrow> h < H \<Longrightarrow> w < W \<Longrightarrow>
         elem (rgb_to_linear_rgb img) (bi @ [c, h, w]) = to_linear (elem img (bi @ [c, h, w]))"
  using assms by (simp_all add: rgb_to_linear_rgb_def elem_tmap valid_index_append)

lemma rgb_to_lab_valid:
  assumes "shape img = bs @ [3, H, W]"
  shows "\<exists>out. rgb_to_lab m img = Inr out \<and> shape out = bs @ [3, H, W] \<and>
           (wf img \<longrightarrow>
            (\<forall>bi h w. valid_index bs bi \<and> h < H \<and> w < W \<longrightarrow>
               pixel out bi h w = rgb_to_lab_pixel m (pixel img bi h w)))"
proof -
  define lin where "lin = rgb_to_linear_rgb img"
  have lin_sh: "shape lin = bs @ [3, H, W]"
    unfolding lin_def using assms by (simp add: rgb_to_linear_rgb_def)
  have lin_el: "elem lin (bi @ [c, h, w]) = to_linear (elem img (bi @ [c, h, w]))"
    if "wf img" "valid_index bs bi" "c < 3" "h < H" "w < W" for bi c h w
    unfolding lin_def using that(1) assms that(2-) by (rule rgb_to_linear_rgb_elem)
  from matrix_transform_valid [OF lin_sh, of m] obtain xyz where
    xyz: "rgb_to_xyz m lin = Inr xyz" "wf xyz" "shape xyz = bs @ [3, H, W]"
    and xyz_el: "\<And>bi c h w. valid_index bs bi \<Longrightarrow> c < 3 \<Longrightarrow> h < H \<Longrightarrow> w < W \<Longrightarrow>
      elem xyz (bi @ [c, h, w]) =
        m c 0 * elem lin (bi @ [0, h, w]) + m c 1 * elem lin (bi @ [1, h, w])
        + m c 2 * elem lin (bi @ [2, h, w])"
    unfolding rgb_to_xyz_def by blast
  define wh :: "real tensor" where "wh = unsqueeze2 (tensor1 [0.95047, 1.0, 1.08883])"
  have wh_sh: "shape wh = [3, 1, 1]" unfolding wh_def by (rule shape_white)
  define nrm where "nrm = tbinop (/) xyz wh"
  have nrm_sh: "shape nrm = bs @ [3, H, W]"
    unfolding nrm_def using xyz(3) wh_sh by (rule shape_tbinop_white)
  have nrm_wf: "wf nrm" unfolding nrm_def by simp
  have nrm_el: "elem nrm (bi @ [c, h, w]) = elem xyz (bi @ [c, h, w]) / elem wh [c, 0, 0]"
    if "valid_index bs bi" "c < 3" "h < H" "w < W" for bi c h w
    unfolding nrm_def using xyz(3) wh_sh that by (rule elem_tbinop_white)
  define xyz_int where "xyz_int =
    twhere (tmap (\<lambda>v. v > 0.008856) nrm)
      (tmap (\<lambda>v. v powr (1 / 3.0)) (tmap (max 0.008856) nrm))
      (tmap (\<lambda>v. 7.787 * v + 4.0 / 29.0) nrm)"
  have int_sh: "shape xyz_int = bs @ [3, H, W]"
    unfolding xyz_int_def using nrm_sh by (rule shape_xyz_int)
  have int_el: "elem xyz_int (bi @ [c, h, w]) = lab_f (elem nrm (bi @ [c, h, w]))"
    if "valid_index bs bi" "c < 3" "h < H" "w < W" for bi c h w
    unfolding xyz_int_def using nrm_sh nrm_wf that by (rule elem_xyz_int)
  define x where "x = select_channel 0 xyz_int"
  define y where "y = select_channel 1 xyz_int"
  define z where "z = select_channel 2 xyz_int"
  have sel_sh: "shape x = bs @ [H, W]" "shape y = bs @ [H, W]" "shape z = bs @ [H, W]"
    unfolding x_def y_def z_def using int_sh by (simp_all add: shape_select_channel)
  have sel_el:
    "elem x (bi @ [h, w]) = elem xyz_int (bi @ [0, h, w])"
    "elem y (bi @ [h, w]) = elem xyz_int (bi @ [1, h, w])"
    "elem z (bi @ [h, w]) = elem xyz_int (bi @ [2, h, w])"
    if "valid_index bs bi" "h < H" "w < W" for bi h w
    unfolding x_def y_def z_def using int_sh that by (simp_all add: elem_select_channel)
  define L where "L = tmap (\<lambda>v. 116.0 * v - 16.0) y"
  define a where "a = tmap (\<lambda>v. 500.0 * v) (tbinop (-) x y)"
  define b where "b = tmap (\<lambda>v. 200.0 * v) (tbinop (-) y z)"
  define out where "out = stack [L, a, b]"
  have L_sh: "shape L = bs @ [H, W]" unfolding L_def using sel_sh by simp
  have out_sh: "shape out = bs @ [3, H, W]"
    unfolding out_def using L_sh by (rule shape_stack3)
  have res: "rgb_to_lab m img = Inr out"
  proof -
    have c: "\<not> (dim img < 3 \<or> channels img \<noteq> 3)"
      using shape_chw [OF assms] by simp
    show ?thesis
      unfolding rgb_to_lab_def out_def L_def a_def b_def x_def y_def z_def xyz_int_def nrm_def
        wh_def
      by (simp only: c if_False Let_def xyz(1) [unfolded lin_def] sum.case)
  qed
  have px: "pixel out bi h w = rgb_to_lab_pixel m (pixel img bi h w)"
    if wfi: "wf img" and v: "valid_index bs bi" "h < H" "w < W" for bi h w
  proof -
    have vi: "valid_index (bs @ [H, W]) (bi @ [h, w])"
      using v by (intro valid_index_append) simp_all
    have st: "elem out (bi @ [k, h, w]) = elem ([L, a, b] ! k) (bi @ [h, w])" if "k < 3" for k
      unfolding out_def using L_sh that v by (rule elem_stack3)
    have wfy: "wf y" "wf (tbinop (-) x y)" "wf (tbinop (-) y z)"
      unfolding y_def by simp_all
    have eL: "elem L (bi @ [h, w]) = 116 * elem y (bi @ [h, w]) - 16"
      unfolding L_def using wfy(1) vi sel_sh by (simp add: elem_tmap)
    have ea: "elem a (bi @ [h, w]) = 500 * (elem x (bi @ [h, w]) - elem y (bi @ [h, w]))"
      unfolding a_def using wfy(2) vi sel_sh
      by (simp add: elem_tmap shape_tbinop_same elem_tbinop_same)
    have eb: "elem b (bi @ [h, w]) = 200 * (elem y (bi @ [h, w]) - elem z (bi @ [h, w]))"
      unfolding b_def using wfy(3) vi sel_sh
      by (simp add: elem_tmap shape_tbinop_same elem_tbinop_same)
    have f: "elem xyz_int (bi @ [c, h, w]) =
               lab_f ((m c 0 * to_linear (elem img (bi @ [0, h, w]))
                     + m c 1 * to_linear (elem img (bi @ [1, h, w]))
                     + m c 2 * to_linear (elem img (bi @ [2, h, w]))) / elem wh [c, 0, 0])"
      if "c < 3" for c
      using that v wfi by (simp add: int_el nrm_el xyz_el lin_el)
    have w: "elem wh [0, 0, 0] = 0.95047" "elem wh [1, 0, 0] = 1.0" "elem wh [2, 0, 0] = 1.08883"
      unfolding wh_def by (rule elem_white)+
    have "elem out (bi @ [0, h, w]) = 116 * elem xyz_int (bi @ [1, h, w]) - 16"
      using st [of 0] eL sel_el(2) [OF v] by simp
    moreover have "elem out (bi @ [1, h, w]) =
        500 * (elem xyz_int (bi @ [0, h, w]) - elem xyz_int (bi @ [1, h, w]))"
      using st [of 1] ea sel_el(1,2) [OF v] by simp
    moreover have "elem out (bi @ [2, h, w]) =
        200 * (elem xyz_int (bi @ [1, h, w]) - elem xyz_int (bi @ [2, h, w]))"
      using st [of 2] eb sel_el(2,3) [OF v] by simp
    ultimately show ?thesis
      using f [of 0] f [of 1] f [of 2] w
      by (simp add: pixel_def rgb_to_lab_pixel_def apply_matrix_def Let_def)
  qed
  show ?thesis using res out_sh px by blast
qed

lemma lab_f_inv_eq:
  "(if f > 0.2068966 then f ^ 3 else (f - 4.0 / 29.0) / 7.787) = lab_f_inv f"
  by (simp add: lab_f_inv_def)

lemma shape_inverse_xyz:
  assumes "shape fxyz = bs @ [3, H, W]"
  shows "shape (twhere (tmap (\<lambda>v. v > 0.2068966) fxyz) (tmap (\<lambda>v. v ^ 3) fxyz)
                  (tmap (\<lambda>v. (v - 4.0 / 29.0) / 7.787) fxyz)) = bs @ [3, H, W]"
  using assms by (simp add: shape_twhere_same)

lemma elem_inverse_xyz:
  assumes "shape fxyz = bs @ [3, H, W]" "wf fxyz"
    and "valid_index bs bi" "c < 3" "h < H" "w < W"
  shows "elem (twhere (tmap (\<lambda>v. v > 0.2068966) fxyz) (tmap (\<lambda>v. v ^ 3) fxyz)
                  (tmap (\<lambda>v. (v - 4.0 / 29.0) / 7.787) fxyz)) (bi @ [c, h, w])
         = lab_f_inv (elem fxyz (bi @ [c, h, w]))"
proof -
  have v: "valid_index (shape fxyz) (bi @ [c, h, w])"
    using assms by (simp add: valid_index_append)
  show ?thesis
    using v assms(2) by (simp add: elem_twhere_same elem_tmap lab_f_inv_def)
qed

lemma linear_rgb_to_rgb_elem:
  assumes "wf img" "shape img = bs @ [3, H, W]"
  shows "wf (linear_rgb_to_rgb img)" "shape (linear_rgb_to_rgb img) = bs @ [3, H, W]"
    and "valid_index bs bi \<Longrightarrow> c < 3 \<Longrightarrow> h < H \<Longrightarrow> w < W \<Longrightarrow>
         elem (linear_rgb_to_rgb img) (bi @ [c, h, w]) = to_encoded (elem img (bi @ [c, h, w]))"
  using assms by (simp_all add: linear_rgb_to_rgb_def elem_tmap valid_index_append)

lemma lab_to_rgb_unclipped:
  assumes "shape img = bs @ [3, H, W]"
  shows "\<exists>out. lab_to_rgb m img False = Inr out \<and> wf out \<and> shape out = bs @ [3, H, W] \<and>
           lab_to_rgb m img True = Inr (tmap (\<lambda>v. min 1.0 (max 0.0 v)) out) \<and>
           (\<forall>bi h w. valid_index bs bi \<and> h < H \<and> w < W \<longrightarrow>
              pixel out bi h w = lab_to_rgb_pixel m False (pixel img bi h w))"
proof -
  define L where "L = select_channel 0 img"
  define a where "a = select_channel 1 img"
  define b where "b = select_channel 2 img"
  have sel_sh: "shape L = bs @ [H, W]" "shape a = bs @ [H, W]" "shape b = bs @ [H, W]"
    unfolding L_def a_def b_def using assms by (simp_all add: shape_select_channel)
  have sel_el:
    "elem L (bi @ [h, w]) = elem img (bi @ [0, h, w])"
    "elem a (bi @ [h, w]) = elem img (bi @ [1, h, w])"
    "elem b (bi @ [h, w]) = elem img (bi @ [2, h, w])"
    if "valid_index bs bi" "h < H" "w < W" for bi h w
    unfolding L_def a_def b_def using assms that by (simp_all add: elem_select_channel)
  have sel_wf: "wf L" "wf a" "wf b" unfolding L_def a_def b_def by simp_all
  define fy where "fy = tmap (\<lambda>v. (v + 16.0) / 116.0) L"
  define fx where "fx = tbinop (+) (tmap (\<lambda>v. v / 500.0) a) fy"
  define fz0 where "fz0 = tbinop (-) fy (tmap (\<lambda>v. v / 200.0) b)"
  define fz where "fz = tmap (max 0.0) fz0"
  define fxyz where "fxyz = stack [fx, fy, fz]"
  have f_sh: "shape fy = bs @ [H, W]" "shape fx = bs @ [H, W]" "shape fz0 = bs @ [H, W]"
    "shape fz = bs @ [H, W]"
    unfolding fy_def fx_def fz0_def fz_def using sel_sh by (simp_all add: shape_tbinop_same)
  have fxyz_sh: "shape fxyz = bs @ [3, H, W]"
    unfolding fxyz_def using f_sh(2) by (rule shape_stack3)
  have fxyz_wf: "wf fxyz" unfolding fxyz_def by simp
  have f_el:
    "elem fy (bi @ [h, w]) = (elem img (bi @ [0, h, w]) + 16) / 116"
    "elem fx (bi @ [h, w]) = elem img (bi @ [1, h, w]) / 500 + (elem img (bi @ [0, h, w]) + 16) / 116"
    "elem fz (bi @ [h, w]) =
       max 0 ((elem img (bi @ [0, h, w]) + 16) / 116 - elem img (bi @ [2, h, w]) / 200)"
    if v: "valid_index bs bi" "h < H" "w < W" for bi h w
  proof -
    have vi: "valid_index (bs @ [H, W]) (bi @ [h, w])"
      using v by (intro valid_index_append) simp_all
    show y: "elem fy (bi @ [h, w]) = (elem img (bi @ [0, h, w]) + 16) / 116"
      unfolding fy_def using sel_wf(1) sel_sh(1) vi sel_el(1) [OF v] by (simp add: elem_tmap)
    show "elem fx (bi @ [h, w]) =
            elem img (bi @ [1, h, w]) / 500 + (elem img (bi @ [0, h, w]) + 16) / 116"
      unfolding fx_def using sel_wf(2) sel_sh(2) f_sh(1) vi sel_el(2) [OF v] y
      by (simp add: elem_tbinop_same elem_tmap)
    have "elem fz0 (bi @ [h, w]) =
            (elem img (bi @ [0, h, w]) + 16) / 116 - elem img (bi @ [2, h, w]) / 200"
      unfolding fz0_def using sel_wf(3) sel_sh(3) f_sh(1) vi sel_el(3) [OF v] y
      by (simp add: elem_tbinop_same elem_tmap)
    moreover have "wf fz0" unfolding fz0_def by simp
    ultimately show "elem fz (bi @ [h, w]) =
       max 0 ((elem img (bi @ [0, h, w]) + 16) / 116 - elem img (bi @ [2, h, w]) / 200)"
      unfolding fz_def using f_sh(3) vi by (simp add: elem_tmap)
  qed
  define xyz where "xyz =
    twhere (tmap (\<lambda>v. v > 0.2068966) fxyz) (tmap (\<lambda>v. v ^ 3) fxyz)
      (tmap (\<lambda>v. (v - 4.0 / 29.0) / 7.787) fxyz)"
  have xyz_sh: "shape xyz = bs @ [3, H, W]"
    unfolding xyz_def using fxyz_sh by (rule shape_inverse_xyz)
  have xyz_el: "elem xyz (bi @ [c, h, w]) = lab_f_inv (elem fxyz (bi @ [c, h, w]))"
    if "valid_index bs bi" "c < 3" "h < H" "w < W" for bi c h w
    unfolding xyz_def using fxyz_sh fxyz_wf that by (rule elem_inverse_xyz)
  define wh :: "real tensor" where "wh = unsqueeze2 (tensor1 [0.95047, 1.0, 1.08883])"
  have wh_sh: "shape wh = [3, 1, 1]" unfolding wh_def by (rule shape_white)
  define xyz_im where "xyz_im = tbinop (*) xyz wh"
  have im_sh: "shape xyz_im = bs @ [3, H, W]"
    unfolding xyz_im_def using xyz_sh wh_sh by (rule shape_tbinop_white)
  have im_el: "elem xyz_im (bi @ [c, h, w]) = elem xyz (bi @ [c, h, w]) * elem wh [c, 0, 0]"
    if "valid_index bs bi" "c < 3" "h < H" "w < W" for bi c h w
    unfolding xyz_im_def using xyz_sh wh_sh that by (rule elem_tbinop_white)
  from matrix_transform_valid [OF im_sh, of m] obtain rgbs where
    rgbs: "xyz_to_rgb m xyz_im = Inr rgbs" "wf rgbs" "shape rgbs = bs @ [3, H, W]"
    and rgbs_el: "\<And>bi c h w. valid_index bs bi \<Longrightarrow> c < 3 \<Longrightarrow> h < H \<Longrightarrow> w < W \<Longrightarrow>
      elem rgbs (bi @ [c, h, w]) =
        m c 0 * elem xyz_im (bi @ [0, h, w]) + m c 1 * elem xyz_im (bi @ [1, h, w])
        + m c 2 * elem xyz_im (bi @ [2, h, w])"
    unfolding xyz_to_rgb_def by blast
  define out where "out = linear_rgb_to_rgb rgbs"
  have out_wf: "wf out" and out_sh: "shape out = bs @ [3, H, W]"
    unfolding out_def using rgbs(2,3) by (rule linear_rgb_to_rgb_elem)+
  have out_el: "elem out (bi @ [c, h, w]) = to_encoded (elem rgbs (bi @ [c, h, w]))"
    if "valid_index bs bi" "c < 3" "h < H" "w < W" for bi c h w
    unfolding out_def using rgbs(2,3) that by (rule linear_rgb_to_rgb_elem)
  have c: "\<not> (dim img < 3 \<or> channels img \<noteq> 3)"
    using shape_chw [OF assms] by simp
  have res: "lab_to_rgb m img False = Inr out"
    unfolding lab_to_rgb_def out_def
    by (simp only: c if_False Let_def
        rgbs(1) [unfolded xyz_im_def wh_def xyz_def fxyz_def fz_def fz0_def fx_def fy_def
          L_def a_def b_def] sum.case)
  have res_clip: "lab_to_rgb m img True = Inr (tmap (\<lambda>v. min 1.0 (max 0.0 v)) out)"
    unfolding lab_to_rgb_def out_def
    by (simp only: c if_False if_True Let_def
        rgbs(1) [unfolded xyz_im_def wh_def xyz_def fxyz_def fz_def fz0_def fx_def fy_def
          L_def a_def b_def] sum.case)
  have px: "pixel out bi h w = lab_to_rgb_pixel m False (pixel img bi h w)"
    if v: "valid_index bs bi" "h < H" "w < W" for bi h w
  proof -
    have st: "elem fxyz (bi @ [k, h, w]) = elem ([fx, fy, fz] ! k) (bi @ [h, w])" if "k < 3" for k
      unfolding fxyz_def using f_sh(2) that v by (rule elem_stack3)
    have w: "elem wh [0, 0, 0] = 0.95047" "elem wh [1, 0, 0] = 1.0" "elem wh [2, 0, 0] = 1.08883"
      unfolding wh_def by (rule elem_white)+
    have s: "elem fxyz (bi @ [0, h, w]) = elem fx (bi @ [h, w])"
      "elem fxyz (bi @ [1, h, w]) = elem fy (bi @ [h, w])"
      "elem fxyz (bi @ [2, h, w]) = elem fz (bi @ [h, w])"
      using st [of 0] st [of 1] st [of 2] by simp_all
    define X where "X = lab_f_inv (elem img (bi @ [1, h, w]) / 500
                          + (elem img (bi @ [0, h, w]) + 16) / 116) * 0.95047"
    define Y where "Y = lab_f_inv ((elem img (bi @ [0, h, w]) + 16) / 116) * 1.0"
    define Z where "Z = lab_f_inv (max 0 ((elem img (bi @ [0, h, w]) + 16) / 116
                                  - elem img (bi @ [2, h, w]) / 200)) * 1.08883"
    have i: "elem xyz_im (bi @ [0, h, w]) = X" "elem xyz_im (bi @ [1, h, w]) = Y"
      "elem xyz_im (bi @ [2, h, w]) = Z"
      unfolding X_def Y_def Z_def
      using v by (simp_all add: im_el xyz_el s f_el w del: One_nat_def)
    have o: "elem out (bi @ [k, h, w]) = to_encoded (m k 0 * X + m k 1 * Y + m k 2 * Z)"
      if "k < 3" for k
      using that v by (simp add: out_el rgbs_el i del: One_nat_def)
    show ?thesis
      using o [of 0] o [of 1] o [of 2]
      by (simp add: pixel_def lab_to_rgb_pixel_def apply_matrix_def Let_def X_def Y_def Z_def)
  qed
  show ?thesis using res res_clip out_wf out_sh px by blast
qed

lemma lab_to_rgb_pixel_clip:
  "lab_to_rgb_pixel m True p =
     (case lab_to_rgb_pixel m False p of (r, g, b) \<Rightarrow> (clamp01 r, clamp01 g, clamp01 b))"
  by (simp add: lab_to_rgb_pixel_def Let_def split: prod.splits)

lemma clamp01_range: "0 \<le> clamp01 v \<and> clamp01 v \<le> 1"
  by (simp add: clamp01_def)

section \<open>Properties of the Lab conversions\<close>

text \<open>
  C1. For every well-formed input of shape \<open>(*, 3, H, W)\<close>, \<^verbatim>\<open>rgb_to_lab\<close> returns
  a tensor of the same shape whose three channels at every pixel are
  \<open>[L, a, b]\<close> as \<open>rgb_to_lab_pixel\<close> gives them from the three channels of the
  input there: linear RGB by the gamma codec, XYZ by the forward matrix, division
  by the white point \<open>(0.95047, 1.0, 1.08883)\<close>, \<open>f(t)\<close> the cube root of \<open>t\<close> where
  \<open>t > 0.008856\<close> and \<open>7.787 * t + 4/29\<close> otherwise, then \<open>L = 116 * f(Y) - 16\<close>,
  \<open>a = 500 * (f(X) - f(Y))\<close>, \<open>b = 200 * (f(Y) - f(Z))\<close>.
\<close>

theorem rgb_to_lab_per_pixel:
  assumes "wf img" and "shape img = bs @ [3, H, W]"
  shows "\<exists>out. rgb_to_lab m img = Inr out \<and> shape out = bs @ [3, H, W] \<and>
           (\<forall>bi h w. valid_index bs bi \<and> h < H \<and> w < W \<longrightarrow>
              pixel out bi h w = rgb_to_lab_pixel m (pixel img bi h w))"
  using rgb_to_lab_valid [OF assms(2), of m] assms(1) by blast

text \<open>
  C2. For every input of shape \<open>(*, 3, H, W)\<close>, \<^verbatim>\<open>lab_to_rgb\<close> returns a tensor of
  the same shape whose three channels at every pixel are as \<open>lab_to_rgb_pixel\<close>
  gives them from \<open>(L, a, b)\<close> there: \<open>fy = (L + 16) / 116\<close>, \<open>fx = a / 500 + fy\<close>,
  \<open>fz = fy - b / 200\<close> raised to at least 0, each taken to its cube where it
  exceeds \<open>0.2068966\<close> and to \<open>(f - 4/29) / 7.787\<close> otherwise, times the white
  point, through the inverse matrix and the gamma encoding. With \<open>clip\<close> every
  element of the result lies in \<open>[0, 1]\<close>, and the clipped result is the unclipped
  one with every element clamped; without \<open>clip\<close> nothing is clamped.
\<close>

theorem lab_to_rgb_per_pixel:
  assumes "shape img = bs @ [3, H, W]"
  shows "\<exists>out. lab_to_rgb m img clip = Inr out \<and> shape out = bs @ [3, H, W] \<and>
           (\<forall>bi h w. valid_index bs bi \<and> h < H \<and> w < W \<longrightarrow>
              pixel out bi h w = lab_to_rgb_pixel m clip (pixel img bi h w)) \<and>
           (clip \<longrightarrow>
            (\<forall>bi c h w. valid_index bs bi \<and> c < 3 \<and> h < H \<and> w < W \<longrightarrow>
               0 \<le> elem out (bi @ [c, h, w]) \<and> elem out (bi @ [c, h, w]) \<le> 1)) \<and>
           lab_to_rgb m img True = map_sum id (tmap clamp01) (lab_to_rgb m img False)"
proof -
  from lab_to_rgb_unclipped [OF assms, of m] obtain u where
    u: "lab_to_rgb m img False = Inr u" "wf u" "shape u = bs @ [3, H, W]"
      "lab_to_rgb m img True = Inr (tmap (\<lambda>v. min 1.0 (max 0.0 v)) u)"
    and px: "\<And>bi h w. valid_index bs bi \<Longrightarrow> h < H \<Longrightarrow> w < W \<Longrightarrow>
               pixel u bi h w = lab_to_rgb_pixel m False (pixel img bi h w)"
    by blast
  have cl: "(\<lambda>v::real. min 1.0 (max 0.0 v)) = clamp01"
    by (simp add: clamp01_def fun_eq_iff)
  have t: "lab_to_rgb m img True = Inr (tmap clamp01 u)"
    using u(4) unfolding cl .
  have rel: "lab_to_rgb m img True = map_sum id (tmap clamp01) (lab_to_rgb m img False)"
    using t u(1) by simp
  have el: "elem (tmap clamp01 u) (bi @ [c, h, w]) = clamp01 (elem u (bi @ [c, h, w]))"
    if "valid_index bs bi" "c < 3" "h < H" "w < W" for bi c h w
    using u(2,3) that by (simp add: elem_tmap valid_index_append)
  show ?thesis
  proof (cases clip)
    case False
    then show ?thesis using u(1,3) px rel by simp
  next
    case True
    have "pixel (tmap clamp01 u) bi h w = lab_to_rgb_pixel m True (pixel img bi h w)"
      if v: "valid_index bs bi" "h < H" "w < W" for bi h w
    proof -
      have "pixel (tmap clamp01 u) bi h w =
              (case pixel u bi h w of (r, g, b) \<Rightarrow> (clamp01 r, clamp01 g, clamp01 b))"
        using v by (simp add: pixel_def el)
      then show ?thesis
        using px [OF v] by (simp add: lab_to_rgb_pixel_clip)
    qed
    moreover have "0 \<le> elem (tmap clamp01 u) (bi @ [c, h, w]) \<and>
                   elem (tmap clamp01 u) (bi @ [c, h, w]) \<le> 1"
      if "valid_index bs bi" "c < 3" "h < H" "w < W" for bi c h w
      using el [OF that] clamp01_range by simp
    ultimately show ?thesis
      using True t u(3) rel by simp
  qed
qed

text \<open>
  C9. Every conversion keeps the leading axes and the two spatial axes of its
  input and sets the channel axis to its own count: 3 for \<^verbatim>\<open>grayscale_to_rgb\<close>,
  1 for \<^verbatim>\<open>rgb_to_grayscale\<close> and \<^verbatim>\<open>bgr_to_grayscale\<close>, 3 for \<^verbatim>\<open>rgb_to_lab\<close> and
  \<^verbatim>\<open>lab_to_rgb\<close>. On such an input the first and the last two always return a
  tensor; the two grayscale reductions do unless the dtype has no default weights,
  when they return TypeError.
\<close>

theorem converters_preserve_other_axes:
  fixes g :: "'a tensor" and x :: "real tensor"
  assumes "shape g = bs1 @ [1, H1, W1]"
    and "tshape t = bs2 @ [3, H2, W2]"
    and "shape x = bs3 @ [3, H3, W3]"
  shows "(\<exists>out. grayscale_to_rgb g = Inr out \<and> shape out = bs1 @ [3, H1, W1]) \<and>
         (case rgb_to_grayscale t of
            Inr out \<Rightarrow> tshape out = bs2 @ [1, H2, W2]
          | Inl e \<Rightarrow> e = TypeError \<and> (\<exists>k. dtype_of t = Other k)) \<and>
         (case bgr_to_grayscale t of
            Inr out \<Rightarrow> tshape out = bs2 @ [1, H2, W2]
          | Inl e \<Rightarrow> e = TypeError \<and> (\<exists>k. dtype_of t = Other k)) \<and>
         (\<exists>out. rgb_to_lab m x = Inr out \<and> shape out = bs3 @ [3, H3, W3]) \<and>
         (\<exists>out. lab_to_rgb m' x clip = Inr out \<and> shape out = bs3 @ [3, H3, W3])"
proof -
  have gray: "case rgb_to_grayscale u of
                Inr out \<Rightarrow> tshape out = bs2 @ [1, H2, W2]
              | Inl e \<Rightarrow> e = TypeError \<and> (\<exists>k. dtype_of u = Other k)"
    if ts: "tshape u = bs2 @ [3, H2, W2]" for u
  proof (cases u)
    case (ByteTensor tb)
    then have "shape tb = bs2 @ [3, H2, W2]" using ts by simp
    from weighted_sum_default [OF this, of 76 150 29] show ?thesis
      using rgb_to_grayscale_valid [OF ts] ByteTensor by auto
  next
    case (FloatTensor k tf)
    then have "shape tf = bs2 @ [3, H2, W2]" using ts by simp
    from weighted_sum_default [OF this, of "0.299" "0.587" "0.114"] show ?thesis
      using rgb_to_grayscale_valid [OF ts] FloatTensor by auto
  next
    case (OtherTensor k tx)
    then show ?thesis using rgb_to_grayscale_valid [OF ts] by simp
  qed
  have tf: "tshape (bgr_to_rgb t) = bs2 @ [3, H2, W2]" using assms(2) by simp
  have b: "bgr_to_grayscale t = rgb_to_grayscale (bgr_to_rgb t)"
    using assms(2) by (rule bgr_to_grayscale_valid)
  have g: "\<exists>out. grayscale_to_rgb g = Inr out \<and> shape out = bs1 @ [3, H1, W1]"
    using grayscale_to_rgb_elem [OF assms(1)] shape_concatenate3 [OF assms(1)] by simp
  have l1: "\<exists>out. rgb_to_lab m x = Inr out \<and> shape out = bs3 @ [3, H3, W3]"
    using rgb_to_lab_valid [OF assms(3), of m] by blast
  have l2: "\<exists>out. lab_to_rgb m' x clip = Inr out \<and> shape out = bs3 @ [3, H3, W3]"
  proof -
    from lab_to_rgb_unclipped [OF assms(3), of m'] obtain u where
      "lab_to_rgb m' x False = Inr u" "shape u = bs3 @ [3, H3, W3]"
      "lab_to_rgb m' x True = Inr (tmap (\<lambda>v. min 1.0 (max 0.0 v)) u)"
      by blast
    then show ?thesis by (cases clip) simp_all
  qed
  have gb: "case bgr_to_grayscale t of
              Inr out \<Rightarrow> tshape out = bs2 @ [1, H2, W2]
            | Inl e \<Rightarrow> e = TypeError \<and> (\<exists>k. dtype_of t = Other k)"
    using gray [OF tf] unfolding b by (auto split: sum.splits)
  show ?thesis
    using g gray [OF assms(2)] gb l1 l2 by simp
qed

theorem rgb_to_lab_per_pixel_witness:
  "wf \<lparr>shape = [2, 3, 1, 1], data = [0, 0, 0, 1, 1, 1 :: real]\<rparr> \<and>
   shape \<lparr>shape = [2, 3, 1, 1], data = [0, 0, 0, 1, 1, 1 :: real]\<rparr> = [2] @ [3, 1, 1] \<and>
   (\<exists>out. rgb_to_lab (\<lambda>i j. if i = j then 1 else 0)
              \<lparr>shape = [2, 3, 1, 1], data = [0, 0, 0, 1, 1, 1]\<rparr> = Inr out \<and>
      shape out = [2] @ [3, 1, 1] \<and>
      (\<forall>bi h w. valid_index [2] bi \<and> h < 1 \<and> w < 1 \<longrightarrow>
         pixel out bi h w =
           rgb_to_lab_pixel (\<lambda>i j. if i = j then 1 else 0)
             (pixel \<lparr>shape = [2, 3, 1, 1], data = [0, 0, 0, 1, 1, 1]\<rparr> bi h w)))"
proof -
  have a: "wf \<lparr>shape = [2, 3, 1, 1], data = [0, 0, 0, 1, 1, 1 :: real]\<rparr>"
    by (simp add: wf_def)
  have b: "shape \<lparr>shape = [2, 3, 1, 1], data = [0, 0, 0, 1, 1, 1 :: real]\<rparr> = [2] @ [3, 1, 1]"
    by simp
  show ?thesis
    by (rule conjI [OF a conjI [OF b rgb_to_lab_per_pixel [OF a b]]])
qed

lemma rgb_to_lab_pixel_black: "rgb_to_lab_pixel m (0, 0, 0) = (0, 0, 0)"
  by (simp add: rgb_to_lab_pixel_def apply_matrix_def to_linear_def lab_f_def)

lemma rgb_to_lab_pixel_white_lightness:
  assumes "m 1 0 + m 1 1 + m 1 2 = 1"
  shows "fst (rgb_to_lab_pixel m (1, 1, 1)) = 100"
  using assms
  by (simp add: rgb_to_lab_pixel_def apply_matrix_def to_linear_def lab_f_def Let_def
      split: prod.splits)

theorem lab_to_rgb_per_pixel_witness:
  "shape \<lparr>shape = [3, 1, 1], data = [- 16, 0, 0 :: real]\<rparr> = [] @ [3, 1, 1] \<and>
   (\<exists>out. lab_to_rgb (\<lambda>i j. if i = j then 1 else 0)
              \<lparr>shape = [3, 1, 1], data = [- 16, 0, 0]\<rparr> True = Inr out \<and>
      shape out = [] @ [3, 1, 1] \<and>
      (\<forall>bi h w. valid_index [] bi \<and> h < 1 \<and> w < 1 \<longrightarrow>
         pixel out bi h w =
           lab_to_rgb_pixel (\<lambda>i j. if i = j then 1 else 0) True
             (pixel \<lparr>shape = [3, 1, 1], data = [- 16, 0, 0]\<rparr> bi h w)) \<and>
      (True \<longrightarrow>
       (\<forall>bi c h w. valid_index [] bi \<and> c < 3 \<and> h < 1 \<and> w < 1 \<longrightarrow>
          0 \<le> elem out (bi @ [c, h, w]) \<and> elem out (bi @ [c, h, w]) \<le> 1)) \<and>
      lab_to_rgb (\<lambda>i j. if i = j then 1 else 0)
        \<lparr>shape = [3, 1, 1], data = [- 16, 0, 0]\<rparr> True =
      map_sum id (tmap clamp01)
        (lab_to_rgb (\<lambda>i j. if i = j then 1 else 0)
           \<lparr>shape = [3, 1, 1], data = [- 16, 0, 0]\<rparr> False))"
proof -
  have a: "shape \<lparr>shape = [3, 1, 1], data = [- 16, 0, 0 :: real]\<rparr> = [] @ [3, 1, 1]"
    by simp
  show ?thesis
    by (rule conjI [OF a lab_to_rgb_per_pixel [OF a]])
qed

lemma lab_to_rgb_pixel_out_of_range:
  "lab_to_rgb_pixel (\<lambda>i j. if i = j then 1 else 0) False (- 16, 0, 0) =
     (- (12.92 * (4 / 29 / 7.787 * 0.95047)), - (12.92 * (4 / 29 / 7.787)),
      - (12.92 * (4 / 29 / 7.787 * 1.08883)))"
  "lab_to_rgb_pixel (\<lambda>i j. if i = j then 1 else 0) True (- 16, 0, 0) = (0, 0, 0)"
  by (simp_all add: lab_to_rgb_pixel_def apply_matrix_def to_encoded_def lab_f_inv_def
      clamp01_def Let_def)

theorem converters_preserve_other_axes_witness:
  "shape \<lparr>shape = [2, 1, 1, 2], data = [1, 2, 3, 4 :: int]\<rparr> = [2] @ [1, 1, 2] \<and>
   tshape (FloatTensor Float32 \<lparr>shape = [2, 3, 1, 1], data = [1, 0, 0, 0.5, 0.5, 0.5]\<rparr>) =
     [2] @ [3, 1, 1] \<and>
   shape \<lparr>shape = [3, 1, 1], data = [0, 0, 0 :: real]\<rparr> = [] @ [3, 1, 1] \<and>
   (\<exists>out. grayscale_to_rgb \<lparr>shape = [2, 1, 1, 2], data = [1, 2, 3, 4 :: int]\<rparr> = Inr out \<and>
      shape out = [2] @ [3, 1, 2]) \<and>
   (case rgb_to_grayscale
           (FloatTensor Float32 \<lparr>shape = [2, 3, 1, 1], data = [1, 0, 0, 0.5, 0.5, 0.5]\<rparr>) of
      Inr out \<Rightarrow> tshape out = [2] @ [1, 1, 1]
    | Inl e \<Rightarrow> e = TypeError \<and>
        (\<exists>k. dtype_of (FloatTensor Float32
                \<lparr>shape = [2, 3, 1, 1], data = [1, 0, 0, 0.5, 0.5, 0.5]\<rparr>) = Other k)) \<and>
   (case bgr_to_grayscale
           (FloatTensor Float32 \<lparr>shape = [2, 3, 1, 1], data = [1, 0, 0, 0.5, 0.5, 0.5]\<rparr>) of
      Inr out \<Rightarrow> tshape out = [2] @ [1, 1, 1]
    | Inl e \<Rightarrow> e = TypeError \<and>
        (\<exists>k. dtype_of (FloatTensor Float32
                \<lparr>shape = [2, 3, 1, 1], data = [1, 0, 0, 0.5, 0.5, 0.5]\<rparr>) = Other k)) \<and>
   (\<exists>out. rgb_to_lab (\<lambda>i j. if i = j then 1 else 0) \<lparr>shape = [3, 1, 1], data = [0, 0, 0]\<rparr> =
           Inr out \<and> shape out = [] @ [3, 1, 1]) \<and>
   (\<exists>out. lab_to_rgb (\<lambda>i j. if i = j then 1 else 0) \<lparr>shape = [3, 1, 1], data = [0, 0, 0]\<rparr> False =
           Inr out \<and> shape out = [] @ [3, 1, 1])"
proof -
  have a: "shape \<lparr>shape = [2, 1, 1, 2], data = [1, 2, 3, 4 :: int]\<rparr> = [2] @ [1, 1, 2]"
    by simp
  have b: "tshape (FloatTensor Float32 \<lparr>shape = [2, 3, 1, 1], data = [1, 0, 0, 0.5, 0.5, 0.5]\<rparr>) =
     [2] @ [3, 1, 1]"
    by simp
  have c: "shape \<lparr>shape = [3, 1, 1], data = [0, 0, 0 :: real]\<rparr> = [] @ [3, 1, 1]"
    by simp
  show ?thesis
    by (rule conjI [OF a conjI [OF b conjI [OF c converters_preserve_other_axes [OF a b c]]]])
qed

section \<open>The Lab converters on concrete tensors\<close>

text \<open>
  The tensor code runs on concrete inputs: black goes to \<open>L = a = b = 0\<close>, and a
  Lab value below black comes back negative unless \<open>clip\<close> is set. The matrix
  is the identity here.
\<close>

lemma rgb_to_lab_black_example:
  "rgb_to_lab (\<lambda>i j. if i = j then 1 else 0) \<lparr>shape = [3, 1, 1], data = [0, 0, 0]\<rparr> =
     Inr \<lparr>shape = [3, 1, 1], data = [0, 0, 0]\<rparr>"
  by code_simp

lemma lab_to_rgb_clip_example:
  "lab_to_rgb (\<lambda>i j. if i = j then 1 else 0) \<lparr>shape = [3, 1, 1], data = [- 16, 0, 0]\<rparr> True =
     Inr \<lparr>shape = [3, 1, 1], data = [0, 0, 0]\<rparr>"
  by code_simp

lemma lab_to_rgb_no_clip_example:
  "lab_to_rgb (\<lambda>i j. if i = j then 1 else 0) \<lparr>shape = [3, 1, 1], data = [- 16, 0, 0]\<rparr> False =
     Inr \<lparr>shape = [3, 1, 1],
          data = [- (12.92 * (4 / 29 / 7.787 * 0.95047)), - (12.92 * (4 / 29 / 7.787)),
                  - (12.92 * (4 / 29 / 7.787 * 1.08883))]\<rparr>"
  by code_simp

section \<open>The round trip: scalar bounds\<close>



























lemma black_roundtrip_example:
  "rgb_to_lab srgb_to_xyz \<lparr>shape = [3, 1, 1], data = [0, 0, 0]\<rparr> =
     Inr \<lparr>shape = [3, 1, 1], data = [0, 0, 0]\<rparr>"
  "lab_to_rgb xyz_to_srgb \<lparr>shape = [3, 1, 1], data = [0, 0, 0]\<rparr> True =
     Inr \<lparr>shape = [3, 1, 1], data = [0, 0, 0]\<rparr>"
  by code_simp+

end
